theory Spec2Isabelle
  imports Complex_Main "HOL-Library.Sublist"
begin

section \<open>JavaScript values\<close>

text \<open>
  The program is JavaScript and nearly all of its data is JSON: the request body handed to
  \<open>createCompleteODAGLink\<close>, the bodies of HTTP responses, the frames of the engine
  socket, the object literals it builds and returns. They are modelled by one datatype.
  Numbers are the integers (the JSON integers a double holds exactly, of magnitude up to
  \<open>2^53\<close>, which JavaScript prints in plain decimal); an object is the list of its
  entries, looked up by key.
\<close>

datatype jsval =
    JUndefined
  | JNull
  | JBool bool
  | JNum int
  | JStr string
  | JArr "jsval list"
  | JObj "(string \<times> jsval) list"

text \<open>Truthiness, as \<open>if (v)\<close>, \<open>!v\<close>, \<open>a && b\<close> and \<open>a || b\<close> read a value.\<close>

fun truthy :: "jsval \<Rightarrow> bool" where
  "truthy JUndefined = False"
| "truthy JNull = False"
| "truthy (JBool b) = b"
| "truthy (JNum n) = (n \<noteq> 0)"
| "truthy (JStr s) = (s \<noteq> [])"
| "truthy (JArr xs) = True"
| "truthy (JObj kvs) = True"

definition js_and :: "jsval \<Rightarrow> jsval \<Rightarrow> jsval" where
  "js_and a b = (if truthy a then b else a)"

definition js_or :: "jsval \<Rightarrow> jsval \<Rightarrow> jsval" where
  "js_or a b = (if truthy a then a else b)"

fun nullish :: "jsval \<Rightarrow> bool" where
  "nullish JUndefined = True"
| "nullish JNull = True"
| "nullish v = False"

text \<open>
  Property access \<open>v.k\<close> for the keys the program reads (\<open>id\<close>, \<open>name\<close>, \<open>message\<close>,
  \<open>error\<close>, \<open>result\<close>, ...): none of them is on a prototype of a JSON value, so the access
  yields the entry of an object and \<open>undefined\<close> on anything else. On \<open>undefined\<close> and
  \<open>null\<close> the access throws a TypeError: \<open>getp_chk\<close> returns its message on the left
  (the text V8 gives it), and \<open>getp\<close> is the access at the places where the program has
  already tested the receiver.
\<close>

fun getp :: "jsval \<Rightarrow> string \<Rightarrow> jsval" where
  "getp (JObj kvs) k = (case map_of kvs k of Some v \<Rightarrow> v | None \<Rightarrow> JUndefined)"
| "getp v k = JUndefined"

definition type_error_msg :: "jsval \<Rightarrow> string \<Rightarrow> string" where
  "type_error_msg v k =
     ''Cannot read properties of '' @ (if v = JNull then ''null'' else ''undefined'')
       @ '' (reading '' @ [CHR 0x27] @ k @ [CHR 0x27] @ '')''"

definition getp_chk :: "jsval \<Rightarrow> string \<Rightarrow> string + jsval" where
  "getp_chk v k = (if nullish v then Inl (type_error_msg v k) else Inr (getp v k))"

text \<open>Optional chaining \<open>v?.k\<close>.\<close>

definition getp_opt :: "jsval \<Rightarrow> string \<Rightarrow> jsval" where
  "getp_opt v k = (if nullish v then JUndefined else getp v k)"

text \<open>Decimal notation of a number, as a template literal prints it.\<close>

fun decimal :: "nat \<Rightarrow> string" where
  "decimal n = (if n < 10 then [''0123456789'' ! n]
                else decimal (n div 10) @ [''0123456789'' ! (n mod 10)])"

declare decimal.simps [simp del]

fun join_comma :: "string list \<Rightarrow> string" where
  "join_comma [] = []"
| "join_comma [s] = s"
| "join_comma (s # t # ss) = s @ '','' @ join_comma (t # ss)"

text \<open>
  The string a value becomes inside a template literal \<open>`... ${v} ...`\<close>: a string is
  itself, \<open>undefined\<close> and \<open>null\<close> print their names, an array joins its elements with
  commas (an \<open>undefined\<close> or \<open>null\<close> element prints as nothing), a plain object prints as
  \<open>[object Object]\<close>. The conversion of an object calls its \<open>toString\<close> method. An
  object with an own property of that name hides the method of the prototype, and in a JSON
  value the property is never a function: the conversion then falls back on \<open>valueOf\<close>,
  which returns no primitive value, and throws a TypeError. So does the conversion of an
  array that has such an object among its elements. \<open>printable\<close> tells whether the
  conversion returns, \<open>to_string\<close> is the string it returns when it does, and
  \<open>to_string_chk\<close> is the conversion with the message of the TypeError on the left.
\<close>

fun printable :: "jsval \<Rightarrow> bool" where
  "printable (JObj kvs) = (map_of kvs ''toString'' = None)"
| "printable (JArr xs) = list_all (\<lambda>x. nullish x \<or> printable x) xs"
| "printable v = True"

fun to_string :: "jsval \<Rightarrow> string" where
  "to_string JUndefined = ''undefined''"
| "to_string JNull = ''null''"
| "to_string (JBool b) = (if b then ''true'' else ''false'')"
| "to_string (JNum n) = (if n < 0 then ''-'' @ decimal (nat (- n)) else decimal (nat n))"
| "to_string (JStr s) = s"
| "to_string (JArr xs) = join_comma (map (\<lambda>x. if nullish x then [] else to_string x) xs)"
| "to_string (JObj kvs) = ''[object Object]''"

definition to_string_chk :: "jsval \<Rightarrow> string + string" where
  "to_string_chk v =
     (if printable v then Inr (to_string v) else Inl ''Cannot convert object to primitive value'')"

text \<open>
  A statement \<open>console.log(`... ${v1} ... ${v2} ...`)\<close>: it returns when every value
  converts, and throws the TypeError of the first that does not.
\<close>

definition log_values :: "jsval list \<Rightarrow> string + unit" where
  "log_values vs =
     (if list_all printable vs then Inr () else Inl ''Cannot convert object to primitive value'')"

text \<open>
  A statement \<open>throw new Error(`text${v}`)\<close>: the message of the error it throws, which is
  the TypeError of the conversion when \<open>v\<close> does not convert.
\<close>

definition thrown_template :: "string \<Rightarrow> jsval \<Rightarrow> string" where
  "thrown_template text v = (case to_string_chk v of Inl m \<Rightarrow> m | Inr t \<Rightarrow> text @ t)"

section \<open>The remote platform and the service instance\<close>

text \<open>
  Every outbound call of the instance is recorded: an HTTP GET or POST through axios (URL,
  body, headers) and the opening of the engine socket (URL, headers).
\<close>

datatype call =
    HttpGet string "(string \<times> string) list"
  | HttpPost string jsval "(string \<times> string) list"
  | WsConnect string "(string \<times> string) list"

text \<open>
  What the remote side answers to an HTTP call: a response with a status and a body, or
  nothing (a transport failure, with the message of the error axios raises).
\<close>

datatype http_reply = Reply nat jsval | NoReply string

text \<open>What the engine socket delivers to the handlers registered on it.\<close>

datatype ws_event =
    Open
  | Message "string + jsval"
  | Error string
  | Close nat string
  | Timeout

text \<open>
  The remote platform is any function of the calls issued so far and of the call being
  made: it may answer the same call differently at different times.
\<close>

record remote =
  http :: "call list \<Rightarrow> call \<Rightarrow> http_reply"
  socket :: "call list \<Rightarrow> call \<Rightarrow> ws_event list"

text \<open>
  A JavaScript error as the \<open>catch\<close> blocks read it: its message and, for an axios error
  raised by a response, the status and body of that response.
\<close>

record js_error =
  error_message :: string
  error_response :: "(nat \<times> jsval) option"

definition plain_error :: "string \<Rightarrow> js_error" where
  "plain_error m = \<lparr> error_message = m, error_response = None \<rparr>"

text \<open>
  axios resolves with the response when the status is in \<open>[200, 300)\<close> and rejects
  otherwise, with the response attached to the error.
\<close>

definition axios_settle :: "http_reply \<Rightarrow> js_error + (nat \<times> jsval)" where
  "axios_settle r =
     (case r of
        Reply status body \<Rightarrow>
          if 200 \<le> status \<and> status < 300 then Inr (status, body)
          else Inl \<lparr> error_message = ''Request failed with status code '' @ decimal status,
                     error_response = Some (status, body) \<rparr>
      | NoReply m \<Rightarrow> Inl (plain_error m))"

record config =
  qlikHost :: string
  qrsPort :: nat
  enginePort :: nat
  odagPort :: nat
  userDirectory :: string
  userId :: string
  virtualProxy :: string

text \<open>
  The instance of \<open>class ODAGLinkCreator\<close>: its resolved configuration, the anti-forgery
  token, the headers of \<open>axiosConfig\<close>, the \<open>authenticated\<close> flag, and (not a field of the
  class) the list of calls it has issued.
\<close>

record creator =
  cfg :: config
  xrfKey :: string
  axiosHeaders :: "(string \<times> string) list"
  authenticated :: bool
  issued :: "call list"

definition axios_get :: "remote \<Rightarrow> string \<Rightarrow> creator \<Rightarrow> (js_error + (nat \<times> jsval)) \<times> creator" where
  "axios_get R url c =
     (let k = HttpGet url (axiosHeaders c)
      in (axios_settle (http R (issued c) k), c\<lparr> issued := issued c @ [k] \<rparr>))"

definition axios_post :: "remote \<Rightarrow> string \<Rightarrow> jsval \<Rightarrow> creator \<Rightarrow> (js_error + (nat \<times> jsval)) \<times> creator" where
  "axios_post R url body c =
     (let k = HttpPost url body (axiosHeaders c)
      in (axios_settle (http R (issued c) k), c\<lparr> issued := issued c @ [k] \<rparr>))"

definition userHeader :: "config \<Rightarrow> string" where
  "userHeader g = ''UserDirectory='' @ userDirectory g @ ''; UserId='' @ userId g"

definition qrsBaseUrl :: "config \<Rightarrow> string" where
  "qrsBaseUrl g =
     (if virtualProxy g \<noteq> []
      then ''https://'' @ qlikHost g @ '':'' @ decimal (qrsPort g) @ ''/'' @ virtualProxy g
      else ''https://'' @ qlikHost g @ '':'' @ decimal (qrsPort g))"

definition linksUrl :: "creator \<Rightarrow> string" where
  "linksUrl c =
     ''https://'' @ qlikHost (cfg c) @ '':'' @ decimal (odagPort (cfg c))
       @ ''/v1/links?xrfkey='' @ xrfKey c"

section \<open>Authentication and the resource API client\<close>

text \<open>
  A function that can throw returns the message of the \<open>Error\<close> it throws on the left;
  every function returns the instance as it leaves it.
\<close>

definition authenticate :: "remote \<Rightarrow> creator \<Rightarrow> (string + jsval) \<times> creator" where
  "authenticate R c =
     (let authUrl = qrsBaseUrl (cfg c) @ ''/qrs/about?xrfkey='' @ xrfKey c;
          (r, c1) = axios_get R authUrl c
      in case r of
           Inl e \<Rightarrow> (Inl (''Authentication failed: '' @ error_message e), c1)
         | Inr (status, body) \<Rightarrow>
             if status = 200 then
               (case getp_chk body ''buildVersion'' of
                  Inl m \<Rightarrow> (Inl (''Authentication failed: '' @ m), c1)
                | Inr v \<Rightarrow> (Inr (JBool True), c1\<lparr> authenticated := True \<rparr>))
             else (Inr JUndefined, c1))"

definition ensureAuthenticated :: "remote \<Rightarrow> creator \<Rightarrow> (string + unit) \<times> creator" where
  "ensureAuthenticated R c =
     (if \<not> authenticated c then
        (case authenticate R c of
           (Inl m, c1) \<Rightarrow> (Inl m, c1)
         | (Inr v, c1) \<Rightarrow> (Inr (), c1))
      else (Inr (), c))"

text \<open>
  The \<open>try\<close> block of \<open>validateAppId\<close>. The URL is a template literal over
  \<open>appId\<close>, which is interpolated as it prints, without escaping; the line logged after
  a successful lookup prints the name and the id of the body.
\<close>

definition validateAppId_try :: "remote \<Rightarrow> jsval \<Rightarrow> creator \<Rightarrow> (js_error + jsval) \<times> creator" where
  "validateAppId_try R appId c =
     (case ensureAuthenticated R c of
        (Inl m, c1) \<Rightarrow> (Inl (plain_error m), c1)
      | (Inr u, c1) \<Rightarrow>
          (case to_string_chk appId of
             Inl m \<Rightarrow> (Inl (plain_error m), c1)
           | Inr sid \<Rightarrow>
               (let url = qrsBaseUrl (cfg c1) @ ''/qrs/app/'' @ sid @ ''?xrfkey='' @ xrfKey c1;
                    (r, c2) = axios_get R url c1
                in case r of
                     Inl e \<Rightarrow> (Inl e, c2)
                   | Inr (status, body) \<Rightarrow>
                       if truthy (js_and body (getp body ''id'')) then
                         (case log_values [getp body ''name'', getp body ''id''] of
                            Inl m \<Rightarrow> (Inl (plain_error m), c2)
                          | Inr u \<Rightarrow>
                              (Inr (JObj [(''valid'', JBool True),
                                          (''name'', getp body ''name''),
                                          (''id'', getp body ''id''),
                                          (''published'', getp body ''published'')]), c2))
                       else (Inl (plain_error (''App not found: '' @ sid)), c2))))"

text \<open>
  The \<open>catch\<close> block of \<open>validateAppId\<close>: what it returns (on the right) or throws for
  the error \<open>e\<close> caught. Both of its branches start by printing \<open>appId\<close>; when that
  throws, the TypeError leaves the function.
\<close>

definition validateAppId_catch :: "jsval \<Rightarrow> js_error \<Rightarrow> string + jsval" where
  "validateAppId_catch appId e =
     (case error_response e of
        Some (status, body) \<Rightarrow>
          if status = 404 then
            (case to_string_chk appId of
               Inl m \<Rightarrow> Inl m
             | Inr sid \<Rightarrow>
                 Inr (JObj [(''valid'', JBool False),
                            (''error'', JStr (''App ID not found: '' @ sid))]))
          else
            (case to_string_chk appId of
               Inl m \<Rightarrow> Inl m
             | Inr sid \<Rightarrow> Inl (''Failed to validate app ID '' @ sid @ '': '' @ error_message e))
      | None \<Rightarrow>
          (case to_string_chk appId of
             Inl m \<Rightarrow> Inl m
           | Inr sid \<Rightarrow> Inl (''Failed to validate app ID '' @ sid @ '': '' @ error_message e)))"

definition validateAppId :: "remote \<Rightarrow> jsval \<Rightarrow> creator \<Rightarrow> (string + jsval) \<times> creator" where
  "validateAppId R appId c =
     (case validateAppId_try R appId c of
        (Inr v, c1) \<Rightarrow> (Inr v, c1)
      | (Inl e, c1) \<Rightarrow> (validateAppId_catch appId e, c1))"

text \<open>The payload \<open>createODAGLink\<close> posts, with the three policy blocks and their defaults.\<close>

definition defaultRowEstRange :: jsval where
  "defaultRowEstRange =
     JArr [JObj [(''context'', JStr ''User_*''), (''lowBound'', JNum 1), (''highBound'', JNum 500000)]]"

definition defaultAppRetentionTime :: jsval where
  "defaultAppRetentionTime =
     JArr [JObj [(''context'', JStr ''User_*''), (''minutes'', JNum 10080)]]"

definition defaultGenAppName :: "jsval \<Rightarrow> jsval" where
  "defaultGenAppName linkConfig =
     JArr [JObj [(''context'', JStr ''User_*''),
                 (''formatString'',
                    JStr (to_string (getp linkConfig ''name'') @ '' - $(user.name) - $(=Now())''))]]"

definition odagPayload :: "jsval \<Rightarrow> jsval" where
  "odagPayload linkConfig =
     JObj [(''name'', getp linkConfig ''name''),
           (''selectionApp'', getp linkConfig ''selectionAppId''),
           (''templateApp'', getp linkConfig ''templateAppId''),
           (''rowEstExpr'', getp linkConfig ''rowEstExpr''),
           (''properties'',
              JObj [(''rowEstRange'', js_or (getp linkConfig ''rowEstRange'') defaultRowEstRange),
                    (''appRetentionTime'',
                       js_or (getp linkConfig ''appRetentionTime'') defaultAppRetentionTime),
                    (''genAppName'',
                       js_or (getp linkConfig ''genAppName'') (defaultGenAppName linkConfig))])]"

text \<open>
  The \<open>try\<close> block of \<open>createODAGLink\<close>. Its first statement after authentication reads
  \<open>linkConfig.name\<close>, which throws on an \<open>undefined\<close> or \<open>null\<close> argument. Before
  the POST it logs four lines that print the name, the two application ids and the
  row-estimation expression of \<open>linkConfig\<close>; after the POST it logs the identifier it
  found. Each of these template literals throws when its value does not convert.
\<close>

definition createODAGLink_try :: "remote \<Rightarrow> jsval \<Rightarrow> creator \<Rightarrow> (js_error + jsval) \<times> creator" where
  "createODAGLink_try R linkConfig c =
     (case ensureAuthenticated R c of
        (Inl m, c1) \<Rightarrow> (Inl (plain_error m), c1)
      | (Inr u, c1) \<Rightarrow>
          (case getp_chk linkConfig ''name'' of
             Inl m \<Rightarrow> (Inl (plain_error m), c1)
           | Inr nm \<Rightarrow>
          (case log_values [nm, getp linkConfig ''selectionAppId'',
                            getp linkConfig ''templateAppId'', getp linkConfig ''rowEstExpr''] of
             Inl m \<Rightarrow> (Inl (plain_error m), c1)
           | Inr u \<Rightarrow>
               (let (r, c2) = axios_post R (linksUrl c1) (odagPayload linkConfig) c1
                in case r of
                     Inl e \<Rightarrow> (Inl e, c2)
                   | Inr (status, body) \<Rightarrow>
                       if truthy (js_and (js_and body (getp body ''objectDef''))
                                         (getp (getp body ''objectDef'') ''id''))
                       then (case log_values [getp (getp body ''objectDef'') ''id''] of
                               Inl m \<Rightarrow> (Inl (plain_error m), c2)
                             | Inr u \<Rightarrow> (Inr (getp body ''objectDef''), c2))
                       else if truthy (js_and body (getp body ''id''))
                       then (case log_values [getp body ''id''] of
                               Inl m \<Rightarrow> (Inl (plain_error m), c2)
                             | Inr u \<Rightarrow> (Inr body, c2))
                       else (Inl (plain_error ''Failed to create ODAG link - no ID returned''),
                             c2)))))"

text \<open>
  The \<open>catch\<close> block: the message of the error thrown for an error \<open>e\<close> caught. Three of
  its messages print the \<open>message\<close> property of the response body.
\<close>

definition createODAGLink_catch :: "js_error \<Rightarrow> string" where
  "createODAGLink_catch e =
     (case error_response e of
        Some (status, body) \<Rightarrow>
          if status = 400 then
            thrown_template ''Bad Request: ''
              (js_or (getp_opt body ''message'') (JStr ''Invalid ODAG configuration''))
          else if status = 401 then
            ''Unauthorized: Please check your authentication credentials''
          else if status = 403 then
            ''Forbidden: User may not have ODAG permissions''
          else if status = 404 then
            ''Not Found: ODAG service may not be running on port 9098''
          else if status = 405 then
            ''Method Not Allowed: Check ODAG service configuration and URL path''
          else if status = 500 then
            thrown_template ''Server Error: ''
              (js_or (getp_opt body ''message'') (JStr ''Internal server error''))
          else
            thrown_template (''HTTP '' @ decimal status @ '': '')
              (js_or (getp_opt body ''message'') (JStr (error_message e)))
      | None \<Rightarrow> ''Failed to create ODAG link: '' @ error_message e)"

definition createODAGLink :: "remote \<Rightarrow> jsval \<Rightarrow> creator \<Rightarrow> (string + jsval) \<times> creator" where
  "createODAGLink R linkConfig c =
     (case createODAGLink_try R linkConfig c of
        (Inr v, c1) \<Rightarrow> (Inr v, c1)
      | (Inl e, c1) \<Rightarrow> (Inl (createODAGLink_catch e), c1))"

section \<open>The engine protocol driver\<close>

text \<open>
  \<open>addNavigationLinkToApp\<close> opens a socket and registers four handlers that share the
  local variables \<open>requestId\<close>, \<open>requests\<close> and \<open>appHandle\<close> and the promise. A session
  holds these variables, the promise (\<open>outcome\<close>: pending, rejected with a message on the
  left, resolved with a value on the right) and the socket as the driver sees it: its ready
  state, whether the 15 second timer is still armed, the frames that went out, and the code
  passed to each call of \<open>ws.close\<close>.
\<close>

datatype ready_state = CONNECTING | OPEN | CLOSING | CLOSED

record session =
  readyState :: ready_state
  requestId :: int
  requests :: "int \<rightharpoonup> string"
  appHandle :: jsval
  timerArmed :: bool
  sent :: "jsval list"
  closeCalls :: "nat option list"
  outcome :: "(string + string) option"

definition init_session :: session where
  "init_session =
     \<lparr> readyState = CONNECTING, requestId = 1, requests = Map.empty, appHandle = JNull,
       timerArmed = True, sent = [], closeCalls = [], outcome = None \<rparr>"

text \<open>A promise settles once: later calls of \<open>resolve\<close> and \<open>reject\<close> change nothing.\<close>

definition resolve :: "string \<Rightarrow> session \<Rightarrow> session" where
  "resolve v s = (if outcome s = None then s\<lparr> outcome := Some (Inr v) \<rparr> else s)"

definition reject :: "string \<Rightarrow> session \<Rightarrow> session" where
  "reject m s = (if outcome s = None then s\<lparr> outcome := Some (Inl m) \<rparr> else s)"

text \<open>
  The two methods of the \<open>ws\<close> socket the driver calls, as the library (version 8)
  implements them. \<open>close\<close> starts the closing handshake unless the socket is closed
  already. \<open>send\<close> throws while the socket is connecting, puts the frame on the wire while
  it is open, and drops the frame once the socket is closing or closed. The driver sends
  \<open>JSON.stringify(request)\<close>; the frame recorded is the request object.
\<close>

definition ws_close :: "nat option \<Rightarrow> session \<Rightarrow> session" where
  "ws_close code s =
     s\<lparr> readyState := (if readyState s = CLOSED then CLOSED else CLOSING),
        closeCalls := closeCalls s @ [code] \<rparr>"

definition ws_send :: "jsval \<Rightarrow> session \<Rightarrow> string + session" where
  "ws_send frame s =
     (if readyState s = CONNECTING then Inl ''WebSocket is not open: readyState 0 (CONNECTING)''
      else if readyState s = OPEN then Inr (s\<lparr> sent := sent s @ [frame] \<rparr>)
      else Inr s)"

text \<open>\<open>requests.get(response.id)\<close>: the keys of the table are numbers.\<close>

definition requests_get :: "(int \<rightharpoonup> string) \<Rightarrow> jsval \<Rightarrow> string option" where
  "requests_get m rid = (case rid of JNum n \<Rightarrow> m n | _ \<Rightarrow> None)"

definition openAppRequest :: "jsval \<Rightarrow> int \<Rightarrow> jsval" where
  "openAppRequest selectionAppId rid =
     JObj [(''handle'', JNum (- 1)), (''method'', JStr ''OpenDoc''),
           (''params'', JArr [selectionAppId]), (''jsonrpc'', JStr ''2.0''), (''id'', JNum rid)]"

definition createObjectRequest :: "jsval \<Rightarrow> jsval \<Rightarrow> int \<Rightarrow> jsval" where
  "createObjectRequest h odagLinkId rid =
     JObj [(''handle'', h), (''method'', JStr ''CreateObject''),
           (''params'',
              JObj [(''qProp'',
                 JObj [(''qInfo'', JObj [(''qType'', JStr ''odagapplink'')]),
                       (''qMetaDef'', JObj [(''odagLinkRef'', odagLinkId)])])]),
           (''jsonrpc'', JStr ''2.0''), (''id'', JNum rid)]"

definition saveRequest :: "jsval \<Rightarrow> int \<Rightarrow> jsval" where
  "saveRequest h rid =
     JObj [(''handle'', h), (''method'', JStr ''DoSave''), (''params'', JArr []),
           (''jsonrpc'', JStr ''2.0''), (''id'', JNum rid)]"

text \<open>
  The \<open>open\<close> handler. The socket is open when it runs, so \<open>send\<close> cannot throw there;
  the model keeps the branch and stops the handler at the throw.
\<close>

definition on_open :: "jsval \<Rightarrow> session \<Rightarrow> session" where
  "on_open selectionAppId s =
     (let s1 = s\<lparr> timerArmed := False \<rparr>;
          request = openAppRequest selectionAppId (requestId s1);
          s2 = s1\<lparr> requests := (requests s1)(requestId s1 \<mapsto> ''openApp'') \<rparr>
      in case ws_send request s2 of
           Inl m \<Rightarrow> s2
         | Inr s3 \<Rightarrow> s3\<lparr> requestId := requestId s3 + 1 \<rparr>)"

text \<open>
  The first two statements of the \<open>openApp\<close> case, on a response that is not
  \<open>undefined\<close> or \<open>null\<close>: \<open>response.result.qReturn.qHandle\<close> is read and assigned to
  \<open>appHandle\<close>, then a line that prints the handle is logged. On the right, the handle,
  read and printed; on the left, the message of the exception, with the handle when the
  exception came after the assignment.
\<close>

definition qHandle_of :: "jsval \<Rightarrow> (string \<times> jsval option) + jsval" where
  "qHandle_of response =
     (case getp_chk (getp response ''result'') ''qReturn'' of
        Inl m \<Rightarrow> Inl (m, None)
      | Inr q \<Rightarrow>
          (case getp_chk q ''qHandle'' of
             Inl m \<Rightarrow> Inl (m, None)
           | Inr h \<Rightarrow>
               (case log_values [h] of
                  Inl m \<Rightarrow> Inl (m, Some h)
                | Inr u \<Rightarrow> Inr h)))"

text \<open>
  The \<open>try\<close> block of the \<open>message\<close> handler. The payload is the text of the
  \<open>SyntaxError\<close> of \<open>JSON.parse\<close> (on the left) or the value parsed. An exception is
  returned on the left with the session as it is at the throw. On a response with an error
  field the handler calls \<open>ws.close()\<close>, with no argument, before it builds the message
  of the rejection from \<open>response.error.message\<close>.
\<close>

definition on_message_try :: "jsval \<Rightarrow> string + jsval \<Rightarrow> session \<Rightarrow> (string \<times> session) + session" where
  "on_message_try odagLinkId payload s =
     (case payload of
        Inl m \<Rightarrow> Inl (m, s)
      | Inr response \<Rightarrow>
          (case getp_chk response ''id'' of
             Inl m \<Rightarrow> Inl (m, s)
           | Inr rid \<Rightarrow>
               (let requestType = requests_get (requests s) rid
                in if truthy (getp response ''error'') then
                     (let s1 = ws_close None s
                      in case to_string_chk (getp (getp response ''error'') ''message'') of
                           Inl m \<Rightarrow> Inl (m, s1)
                         | Inr t \<Rightarrow> Inr (reject (''WebSocket error: '' @ t) s1))
                   else if requestType = Some ''openApp'' then
                     (case qHandle_of response of
                        Inl (m, None) \<Rightarrow> Inl (m, s)
                      | Inl (m, Some h) \<Rightarrow> Inl (m, s\<lparr> appHandle := h \<rparr>)
                      | Inr h \<Rightarrow>
                          (let s1 = s\<lparr> appHandle := h \<rparr>;
                               request = createObjectRequest (appHandle s1) odagLinkId (requestId s1);
                               s2 = s1\<lparr> requests := (requests s1)(requestId s1 \<mapsto> ''createObject'') \<rparr>
                           in case ws_send request s2 of
                                Inl m \<Rightarrow> Inl (m, s2)
                              | Inr s3 \<Rightarrow> Inr (s3\<lparr> requestId := requestId s3 + 1 \<rparr>)))
                   else if requestType = Some ''createObject'' then
                     (let request = saveRequest (appHandle s) (requestId s);
                          s2 = s\<lparr> requests := (requests s)(requestId s \<mapsto> ''save'') \<rparr>
                      in case ws_send request s2 of
                           Inl m \<Rightarrow> Inl (m, s2)
                         | Inr s3 \<Rightarrow> Inr (s3\<lparr> requestId := requestId s3 + 1 \<rparr>))
                   else if requestType = Some ''save'' then
                     Inr (resolve ''ODAG app link created and app saved'' (ws_close None s))
                   else Inr s)))"

definition on_message :: "jsval \<Rightarrow> string + jsval \<Rightarrow> session \<Rightarrow> session" where
  "on_message odagLinkId payload s =
     (case on_message_try odagLinkId payload s of
        Inr s1 \<Rightarrow> s1
      | Inl (m, s1) \<Rightarrow>
          reject (''Failed to parse WebSocket response: '' @ m) (ws_close None s1))"

definition on_error :: "string \<Rightarrow> session \<Rightarrow> session" where
  "on_error m s = reject (''WebSocket error: '' @ m) (s\<lparr> timerArmed := False \<rparr>)"

definition on_close :: "nat \<Rightarrow> string \<Rightarrow> session \<Rightarrow> session" where
  "on_close code reason s =
     (let s1 = s\<lparr> timerArmed := False \<rparr>
      in if code \<noteq> 1000
         then reject (''WebSocket closed with code '' @ decimal code @ '': '' @ reason) s1
         else s1)"

definition on_timeout :: "session \<Rightarrow> session" where
  "on_timeout s = reject ''WebSocket connection timeout'' (ws_close None s)"

text \<open>
  One event of the socket. The library moves the ready state before it calls the handler:
  \<open>open\<close> is emitted once, on a connecting socket; \<open>error\<close> leaves the socket closing;
  \<open>close\<close> leaves it closed. The timer fires only while it is armed.
\<close>

fun handle_event :: "jsval \<Rightarrow> jsval \<Rightarrow> ws_event \<Rightarrow> session \<Rightarrow> session" where
  "handle_event selectionAppId odagLinkId Open s =
     (if readyState s = CONNECTING then on_open selectionAppId (s\<lparr> readyState := OPEN \<rparr>) else s)"
| "handle_event selectionAppId odagLinkId (Message payload) s = on_message odagLinkId payload s"
| "handle_event selectionAppId odagLinkId (Error m) s =
     on_error m (s\<lparr> readyState := (if readyState s = CLOSED then CLOSED else CLOSING) \<rparr>)"
| "handle_event selectionAppId odagLinkId (Close code reason) s =
     on_close code reason (s\<lparr> readyState := CLOSED \<rparr>)"
| "handle_event selectionAppId odagLinkId Timeout s =
     (if timerArmed s then on_timeout (s\<lparr> timerArmed := False \<rparr>) else s)"

fun run_events :: "jsval \<Rightarrow> jsval \<Rightarrow> ws_event list \<Rightarrow> session \<Rightarrow> session" where
  "run_events selectionAppId odagLinkId [] s = s"
| "run_events selectionAppId odagLinkId (e # es) s =
     run_events selectionAppId odagLinkId es (handle_event selectionAppId odagLinkId e s)"

text \<open>The URL of the engine socket, for an application id that prints.\<close>

definition wsUrl :: "config \<Rightarrow> jsval \<Rightarrow> string" where
  "wsUrl g selectionAppId =
     (if virtualProxy g \<noteq> []
      then ''wss://'' @ qlikHost g @ '':'' @ decimal (enginePort g) @ ''/'' @ virtualProxy g
             @ ''/app/'' @ to_string selectionAppId
      else ''wss://'' @ qlikHost g @ '':'' @ decimal (enginePort g)
             @ ''/app/'' @ to_string selectionAppId)"

text \<open>
  The fragment of a URL: what follows its first \<open>#\<close>. The constructor of the \<open>ws\<close>
  socket (version 8) throws a SyntaxError for a URL with a fragment that is not empty. It
  also throws for a text that is no URL at all, which the host and the port of a resolved
  configuration exclude.
\<close>

definition url_fragment :: "string \<Rightarrow> string" where
  "url_fragment url = tl (dropWhile (\<lambda>ch. ch \<noteq> CHR ''#'') url)"

text \<open>
  The promise \<open>addNavigationLinkToApp\<close> returns, awaited: \<open>None\<close> when the events of the
  socket never settle it. An exception thrown in the executor, by the template literal of
  the URL or by the constructor of the socket, rejects the promise before any connection is
  made. The parameters \<open>linkName\<close> and \<open>description\<close> are not used by the body.
\<close>

definition addNavigationLinkToApp ::
  "remote \<Rightarrow> jsval \<Rightarrow> jsval \<Rightarrow> jsval \<Rightarrow> jsval \<Rightarrow> creator \<Rightarrow> (string + string) option \<times> creator" where
  "addNavigationLinkToApp R selectionAppId odagLinkId linkName description c =
     (case to_string_chk selectionAppId of
        Inl m \<Rightarrow> (Some (Inl m), c)
      | Inr sid \<Rightarrow>
          if url_fragment (wsUrl (cfg c) selectionAppId) \<noteq> []
          then (Some (Inl ''The URL contains a fragment identifier''), c)
          else
            (let k = WsConnect (wsUrl (cfg c) selectionAppId)
                       [(''X-Qlik-Xrfkey'', xrfKey c), (''X-Qlik-User'', userHeader (cfg c))];
                 s = run_events selectionAppId odagLinkId (socket R (issued c) k) init_session
             in (outcome s, c\<lparr> issued := issued c @ [k] \<rparr>)))"

section \<open>The provisioning orchestrator\<close>

text \<open>The loop over \<open>requiredFields\<close>: the message of the first field that is missing.\<close>

fun check_required :: "jsval \<Rightarrow> string list \<Rightarrow> string option" where
  "check_required options [] = None"
| "check_required options (field # rest) =
     (if \<not> truthy (getp options field) then Some (''Missing required field: '' @ field)
      else check_required options rest)"

definition successResult :: "jsval \<Rightarrow> jsval \<Rightarrow> jsval \<Rightarrow> jsval \<Rightarrow> jsval" where
  "successResult options odagLink selectionAppValidation templateAppValidation =
     JObj [(''success'', JBool True),
           (''odagLinkId'', getp odagLink ''id''),
           (''selectionAppId'', getp options ''selectionAppId''),
           (''templateAppId'', getp options ''templateAppId''),
           (''selectionAppName'', getp selectionAppValidation ''name''),
           (''templateAppName'', getp templateAppValidation ''name''),
           (''message'', JStr ''ODAG link created and registered in Hub successfully'')]"

definition partialResult :: "jsval \<Rightarrow> jsval \<Rightarrow> jsval \<Rightarrow> jsval \<Rightarrow> string \<Rightarrow> jsval" where
  "partialResult options odagLink selectionAppValidation templateAppValidation navError =
     JObj [(''success'', JBool True),
           (''partial'', JBool True),
           (''odagLinkId'', getp odagLink ''id''),
           (''selectionAppId'', getp options ''selectionAppId''),
           (''templateAppId'', getp options ''templateAppId''),
           (''selectionAppName'', getp selectionAppValidation ''name''),
           (''templateAppName'', getp templateAppValidation ''name''),
           (''message'',
              JStr ''ODAG link created successfully. Navigation link must be added manually.''),
           (''navigationLinkError'', JStr navError)]"

definition failureResult :: "string \<Rightarrow> jsval" where
  "failureResult m = JObj [(''success'', JBool False), (''error'', JStr m)]"

definition linkConfigOf :: "jsval \<Rightarrow> jsval" where
  "linkConfigOf options =
     JObj [(''name'', getp options ''linkName''),
           (''selectionAppId'', getp options ''selectionAppId''),
           (''templateAppId'', getp options ''templateAppId''),
           (''rowEstExpr'', getp options ''rowEstExpr''),
           (''rowEstRange'', getp options ''rowEstRange''),
           (''appRetentionTime'', getp options ''appRetentionTime''),
           (''genAppName'', getp options ''genAppName'')]"

text \<open>
  The outer \<open>try\<close> block of \<open>createCompleteODAGLink\<close>: an exception on the left, the
  object returned on the right, \<open>None\<close> when the navigation promise never settles. After
  the two validations it logs two lines that print the names found and the two ids.
\<close>

definition createCompleteODAGLink_try ::
  "remote \<Rightarrow> jsval \<Rightarrow> creator \<Rightarrow> (string + jsval) option \<times> creator" where
  "createCompleteODAGLink_try R options c =
     (case ensureAuthenticated R c of
        (Inl m, c1) \<Rightarrow> (Some (Inl m), c1)
      | (Inr u, c1) \<Rightarrow>
     (case getp_chk options ''selectionAppId'' of
        Inl m \<Rightarrow> (Some (Inl m), c1)
      | Inr sel \<Rightarrow>
     (let hasAppIds = js_and sel (getp options ''templateAppId'')
      in if \<not> truthy hasAppIds then
           (Some (Inl ''Missing required fields: selectionAppId and templateAppId are required''), c1)
         else
     (case check_required options [''linkName'', ''rowEstExpr''] of
        Some m \<Rightarrow> (Some (Inl m), c1)
      | None \<Rightarrow>
     (case validateAppId R (getp options ''selectionAppId'') c1 of
        (Inl m, c2) \<Rightarrow> (Some (Inl m), c2)
      | (Inr selectionAppValidation, c2) \<Rightarrow>
     (case validateAppId R (getp options ''templateAppId'') c2 of
        (Inl m, c3) \<Rightarrow> (Some (Inl m), c3)
      | (Inr templateAppValidation, c3) \<Rightarrow>
          if \<not> truthy (getp selectionAppValidation ''valid'') then
            (Some (Inl (thrown_template ''Selection app validation failed: ''
                          (getp selectionAppValidation ''error''))), c3)
          else if \<not> truthy (getp templateAppValidation ''valid'') then
            (Some (Inl (thrown_template ''Template app validation failed: ''
                          (getp templateAppValidation ''error''))), c3)
          else
     (case log_values [getp selectionAppValidation ''name'', getp options ''selectionAppId'',
                       getp templateAppValidation ''name'', getp options ''templateAppId''] of
        Inl m \<Rightarrow> (Some (Inl m), c3)
      | Inr u \<Rightarrow>
     (case createODAGLink R (linkConfigOf options) c3 of
        (Inl m, c4) \<Rightarrow> (Some (Inl m), c4)
      | (Inr odagLink, c4) \<Rightarrow>
     (case addNavigationLinkToApp R (getp options ''selectionAppId'') (getp odagLink ''id'')
             (getp options ''linkName'')
             (js_or (getp options ''description'') (JStr ''On-demand app generation link'')) c4 of
        (None, c5) \<Rightarrow> (None, c5)
      | (Some (Inr r), c5) \<Rightarrow>
          (Some (Inr (successResult options odagLink selectionAppValidation
                        templateAppValidation)), c5)
      | (Some (Inl navError), c5) \<Rightarrow>
          (Some (Inr (partialResult options odagLink selectionAppValidation
                        templateAppValidation navError)), c5))))))))))"

definition createCompleteODAGLink :: "remote \<Rightarrow> jsval \<Rightarrow> creator \<Rightarrow> jsval option \<times> creator" where
  "createCompleteODAGLink R options c =
     (case createCompleteODAGLink_try R options c of
        (None, c1) \<Rightarrow> (None, c1)
      | (Some (Inr v), c1) \<Rightarrow> (Some v, c1)
      | (Some (Inl m), c1) \<Rightarrow> (Some (failureResult m), c1))"

definition testConnection :: "remote \<Rightarrow> creator \<Rightarrow> jsval \<times> creator" where
  "testConnection R c =
     (case authenticate R c of
        (Inl m, c1) \<Rightarrow> (failureResult m, c1)
      | (Inr v, c1) \<Rightarrow>
          (let (r, c2) = axios_get R (linksUrl c1) c1
           in (JObj [(''success'', JBool True),
                     (''message'', JStr ''Connection test completed''),
                     (''qrsApi'', JStr ''working''),
                     (''authentication'', JStr ''successful'')], c2)))"

section \<open>Construction and the anti-forgery token\<close>

definition chars :: string where
  "chars = ''abcdefghijklmnopqrstuvwxyzABCDEFGHIJKLMNOPQRSTUVWXYZ0123456789''"

text \<open>\<open>String.prototype.charAt\<close>: the empty string outside the string.\<close>

definition charAt :: "string \<Rightarrow> int \<Rightarrow> string" where
  "charAt s i = (if 0 \<le> i \<and> i < int (length s) then [s ! nat i] else [])"

text \<open>
  The loop of \<open>generateXrfKey\<close>, from the counter \<open>i\<close> and the string built so far.
  \<open>idx i\<close> is the integer that \<open>Math.floor(Math.random() * chars.length)\<close> evaluates to
  in iteration \<open>i\<close>. \<open>Math.random\<close> returns a double in \<open>[0, 1)\<close> and the product is
  rounded to a double before it is floored: the greatest such product is the double just
  below 62, so the integer lies between 0 and 61. Which of these integers a draw gives is
  left to the environment; the theorems on the token assume the range only.
\<close>

function xrfLoop :: "(nat \<Rightarrow> int) \<Rightarrow> nat \<Rightarrow> string \<Rightarrow> string" where
  "xrfLoop idx i result =
     (if i < 16
      then xrfLoop idx (i + 1) (result @ charAt chars (idx i))
      else result)"
  by pat_completeness auto
termination
  by (relation "measure (\<lambda>(idx, i, result). 16 - i)") auto

declare xrfLoop.simps [simp del]

definition generateXrfKey :: "(nat \<Rightarrow> int) \<Rightarrow> string" where
  "generateXrfKey idx = xrfLoop idx 0 []"

text \<open>
  The constructor, from the configuration record that \<open>config.js\<close> resolves (it defines
  every key, so none of the constructor's fallbacks applies) and the random indices. The
  certificate files it reads go into the HTTPS agent only.
\<close>

definition new_ODAGLinkCreator :: "config \<Rightarrow> (nat \<Rightarrow> int) \<Rightarrow> creator" where
  "new_ODAGLinkCreator g idx =
     (let key = generateXrfKey idx
      in \<lparr> cfg = g, xrfKey = key,
           axiosHeaders = [(''X-Qlik-Xrfkey'', key), (''X-Qlik-User'', userHeader g),
                           (''Content-Type'', ''application/json'')],
           authenticated = False, issued = [] \<rparr>)"

section \<open>Vocabulary of the properties\<close>

text \<open>
  What the theorems say about the calls an operation issues: \<open>grows P c c'\<close> holds when
  the instance \<open>c'\<close> has the configuration, the token and the headers of \<open>c\<close>, and its
  calls are those of \<open>c\<close> followed by calls that all satisfy \<open>P\<close>.
\<close>

fun is_post :: "call \<Rightarrow> bool" where
  "is_post (HttpPost url body hs) = True"
| "is_post k = False"

text \<open>
  The request an HTTP client makes for a URL: the fragment, from the first \<open>#\<close> on, is not
  sent; the query is what follows the first \<open>?\<close> of the rest, a list of pairs
  \<open>name=value\<close> separated by \<open>&\<close>. \<open>query_param\<close> is the value of the first pair
  with a given name.
\<close>

fun split_on :: "char \<Rightarrow> string \<Rightarrow> string list" where
  "split_on d [] = [[]]"
| "split_on d (ch # cs) =
     (if ch = d then [] # split_on d cs
      else (case split_on d cs of p # ps \<Rightarrow> (ch # p) # ps | [] \<Rightarrow> [[ch]]))"

definition url_query :: "string \<Rightarrow> string" where
  "url_query url =
     tl (dropWhile (\<lambda>ch. ch \<noteq> CHR ''?'') (takeWhile (\<lambda>ch. ch \<noteq> CHR ''#'') url))"

definition query_param :: "string \<Rightarrow> string \<Rightarrow> string option" where
  "query_param url name =
     map_of (map (\<lambda>p. (takeWhile (\<lambda>ch. ch \<noteq> CHR ''='') p,
                          tl (dropWhile (\<lambda>ch. ch \<noteq> CHR ''='') p)))
               (split_on (CHR ''&'') (url_query url))) name"

text \<open>
  The token in the URL of a REST call: the text of the URL ends in \<open>?xrfkey=\<close> and the
  token, and that is the \<open>xrfkey\<close> parameter of the request when the text before it has
  no \<open>#\<close> and no \<open>?\<close>. A call carries the token when its \<open>X-Qlik-Xrfkey\<close> header is
  the token and, for a REST call, the token is in its URL.
\<close>

definition url_before_token :: "string \<Rightarrow> string \<Rightarrow> string" where
  "url_before_token key url = take (length url - length (''?xrfkey='' @ key)) url"

definition token_in_url :: "string \<Rightarrow> string \<Rightarrow> bool" where
  "token_in_url key url =
     (suffix (''?xrfkey='' @ key) url
      \<and> (CHR ''#'' \<notin> set (url_before_token key url)
           \<and> CHR ''?'' \<notin> set (url_before_token key url)
         \<longrightarrow> query_param url ''xrfkey'' = Some key))"

fun carries_token :: "string \<Rightarrow> call \<Rightarrow> bool" where
  "carries_token key (HttpGet url hs) =
     (token_in_url key url \<and> map_of hs ''X-Qlik-Xrfkey'' = Some key)"
| "carries_token key (HttpPost url body hs) =
     (token_in_url key url \<and> map_of hs ''X-Qlik-Xrfkey'' = Some key)"
| "carries_token key (WsConnect url hs) = (map_of hs ''X-Qlik-Xrfkey'' = Some key)"

definition token_header :: "creator \<Rightarrow> bool" where
  "token_header c = (map_of (axiosHeaders c) ''X-Qlik-Xrfkey'' = Some (xrfKey c))"

definition grows :: "(call \<Rightarrow> bool) \<Rightarrow> creator \<Rightarrow> creator \<Rightarrow> bool" where
  "grows P c c' =
     (cfg c' = cfg c \<and> xrfKey c' = xrfKey c \<and> axiosHeaders c' = axiosHeaders c
      \<and> (\<exists>ks. issued c' = issued c @ ks \<and> list_all P ks))"

text \<open>
  The calls an instance makes in its own name: a GET or POST whose URL ends in the
  \<open>xrfkey\<close> query parameter with the instance's token and whose headers are those of
  \<open>axiosConfig\<close>, or a socket opened with the token and the user in its headers.
\<close>

definition own_get :: "creator \<Rightarrow> call \<Rightarrow> bool" where
  "own_get c k = (\<exists>u. k = HttpGet (u @ ''?xrfkey='' @ xrfKey c) (axiosHeaders c))"

definition own_call :: "creator \<Rightarrow> call \<Rightarrow> bool" where
  "own_call c k =
     (own_get c k
      \<or> (\<exists>u body. k = HttpPost (u @ ''?xrfkey='' @ xrfKey c) body (axiosHeaders c))
      \<or> (\<exists>u. k = WsConnect u [(''X-Qlik-Xrfkey'', xrfKey c), (''X-Qlik-User'', userHeader (cfg c))]))"

text \<open>
  The typed errors the specification names for a failed link creation, its table from
  HTTP status to error, and the \<open>Error\<close> message by which \<open>createODAGLink\<close> throws each
  of them (the program has no error classes: the message is all a caller sees).
\<close>

datatype link_error =
    InvalidConfiguration
  | Unauthorized
  | Forbidden
  | ServiceUnavailable
  | EndpointMisconfigured
  | RemoteServerError
  | UnexpectedStatus nat




text \<open>
  Vocabulary of the engine session. A socket that is closing or closed puts no frame on the
  wire.
\<close>

definition closing :: "session \<Rightarrow> bool" where
  "closing s = (readyState s = CLOSING \<or> readyState s = CLOSED)"





text \<open>
  A frame that follows the \<open>OpenDoc\<close> request: a \<open>CreateObject\<close> or \<open>DoSave\<close>
  request to one of the handles \<open>hs\<close>.
\<close>

definition follow_up :: "jsval list \<Rightarrow> jsval \<Rightarrow> bool" where
  "follow_up hs f =
     (getp f ''handle'' \<in> set hs
      \<and> (getp f ''method'' = JStr ''CreateObject'' \<or> getp f ''method'' = JStr ''DoSave''))"


text \<open>
  The correlation id of a frame, and the order of the frames that went out: their ids
  increase strictly and stay below the next id, the first frame is the \<open>OpenDoc\<close> request
  with id 1, an open socket has sent it, and a connecting socket has sent nothing.
\<close>

definition frame_id :: "jsval \<Rightarrow> int" where
  "frame_id m = (case getp m ''id'' of JNum n \<Rightarrow> n | _ \<Rightarrow> 0)"



text \<open>The names of the properties of an object, as \<open>Object.keys\<close> lists them.\<close>

fun keys_of :: "jsval \<Rightarrow> string list" where
  "keys_of (JObj kvs) = map fst kvs"
| "keys_of v = []"

text \<open>
  A result object carries a list of steps when one of its properties is a non-empty array.
\<close>

fun is_nonempty_list :: "jsval \<Rightarrow> bool" where
  "is_nonempty_list (JArr (x # xs)) = True"
| "is_nonempty_list v = False"

definition carries_step_list :: "jsval \<Rightarrow> bool" where
  "carries_step_list res =
     (case res of JObj kvs \<Rightarrow> list_ex (\<lambda>(k, v). is_nonempty_list v) kvs | _ \<Rightarrow> False)"

text \<open>
  The operations of an instance, and the instance after one of them and after a sequence
  of them, whatever each returns.
\<close>

datatype operation =
    Authenticate
  | ValidateAppId jsval
  | CreateODAGLink jsval
  | AddNavigationLinkToApp jsval jsval jsval jsval
  | CreateCompleteODAGLink jsval
  | TestConnection

fun perform :: "remote \<Rightarrow> operation \<Rightarrow> creator \<Rightarrow> creator" where
  "perform R Authenticate c = snd (authenticate R c)"
| "perform R (ValidateAppId appId) c = snd (validateAppId R appId c)"
| "perform R (CreateODAGLink linkConfig) c = snd (createODAGLink R linkConfig c)"
| "perform R (AddNavigationLinkToApp a l n d) c = snd (addNavigationLinkToApp R a l n d c)"
| "perform R (CreateCompleteODAGLink options) c = snd (createCompleteODAGLink R options c)"
| "perform R TestConnection c = snd (testConnection R c)"

fun perform_all :: "remote \<Rightarrow> operation list \<Rightarrow> creator \<Rightarrow> creator" where
  "perform_all R [] c = c"
| "perform_all R (op # ops) c = perform_all R ops (perform R op c)"

section \<open>Concrete inputs\<close>

text \<open>
  A remote platform that answers the HTTP calls from a script, the \<open>n\<close>-th call with the
  \<open>n\<close>-th reply, and delivers a fixed list of events on every socket; an instance built
  by the constructor from random indices that are all 31; the request of the
  specification's scenario.
\<close>

definition scripted :: "http_reply list \<Rightarrow> ws_event list \<Rightarrow> remote" where
  "scripted replies events =
     \<lparr> http = (\<lambda>h k. if length h < length replies then replies ! length h
                       else NoReply ''socket hang up''),
       socket = (\<lambda>h k. events) \<rparr>"

definition demo_config :: config where
  "demo_config = \<lparr> qlikHost = ''qlik.example'', qrsPort = 4242, enginePort = 4747,
      odagPort = 9098, userDirectory = ''CORP'', userId = ''svc'', virtualProxy = [] \<rparr>"

definition demo_creator :: creator where
  "demo_creator = new_ODAGLinkCreator demo_config (\<lambda>i. 31)"

definition demo_authenticated :: creator where
  "demo_authenticated = demo_creator\<lparr> authenticated := True \<rparr>"

definition demo_options :: jsval where
  "demo_options = JObj [(''linkName'', JStr ''Sales Detail''), (''selectionAppId'', JStr ''A''),
      (''templateAppId'', JStr ''B''), (''rowEstExpr'', JStr ''Sum(X)'')]"

definition demo_linkConfig :: jsval where
  "demo_linkConfig =
     JObj [(''name'', JStr ''Sales Detail''), (''selectionAppId'', JStr ''A''),
           (''templateAppId'', JStr ''B''), (''rowEstExpr'', JStr ''Sum(X)''),
           (''rowEstRange'',
              JArr [JObj [(''context'', JStr ''User_*''), (''lowBound'', JNum 1),
                          (''highBound'', JNum 1000)]])]"


definition demo_openDocReply :: jsval where
  "demo_openDocReply =
     JObj [(''jsonrpc'', JStr ''2.0''), (''id'', JNum 1),
           (''result'', JObj [(''qReturn'',
              JObj [(''qType'', JStr ''Doc''), (''qHandle'', JNum 7)])])]"


definition demo_reply :: "int \<Rightarrow> jsval" where
  "demo_reply n = JObj [(''jsonrpc'', JStr ''2.0''), (''id'', JNum n), (''result'', JObj [])]"

definition demo_errorReply :: "int \<Rightarrow> jsval" where
  "demo_errorReply n =
     JObj [(''jsonrpc'', JStr ''2.0''), (''id'', JNum n),
           (''error'', JObj [(''code'', JNum (- 32602)), (''parameter'', JStr ''qProp''),
                             (''message'', JStr ''Invalid parameters'')])]"

text \<open>
  Bodies of the two application lookups and of the link creation (the nested shape), the
  events of a session that succeeds and of one whose first response is an error, a request
  without \<open>linkName\<close>, a request whose template id is an object with a \<open>toString\<close>
  property, and the partial result of the scenario.
\<close>

definition demo_appA :: jsval where
  "demo_appA = JObj [(''id'', JStr ''A''), (''name'', JStr ''Sales''), (''published'', JBool True)]"

definition demo_appB :: jsval where
  "demo_appB = JObj [(''id'', JStr ''B''), (''name'', JStr ''Sales Template''),
                     (''published'', JBool True)]"

definition demo_linkReply :: jsval where
  "demo_linkReply = JObj [(''objectDef'', JObj [(''id'', JStr ''link-1''), (''name'', JStr ''Sales Detail'')])]"

definition demo_ok_events :: "ws_event list" where
  "demo_ok_events =
     [Open, Message (Inr demo_openDocReply), Message (Inr (demo_reply 2)),
      Message (Inr (demo_reply 3))]"

definition demo_failing_events :: "ws_event list" where
  "demo_failing_events = [Open, Message (Inr (demo_errorReply 1))]"

definition demo_missing :: jsval where
  "demo_missing = JObj [(''selectionAppId'', JStr ''A''), (''templateAppId'', JStr ''B''),
      (''rowEstExpr'', JStr ''Sum(X)'')]"

definition demo_unprintable :: jsval where
  "demo_unprintable =
     JObj [(''linkName'', JStr ''Sales Detail''), (''selectionAppId'', JStr ''A''),
           (''templateAppId'', JObj [(''toString'', JNum 1)]), (''rowEstExpr'', JStr ''Sum(X)'')]"

definition demo_partial_result :: jsval where
  "demo_partial_result =
     JObj [(''success'', JBool True), (''partial'', JBool True),
           (''odagLinkId'', JStr ''link-1''),
           (''selectionAppId'', JStr ''A''), (''templateAppId'', JStr ''B''),
           (''selectionAppName'', JStr ''Sales''), (''templateAppName'', JStr ''Sales Template''),
           (''message'',
              JStr ''ODAG link created successfully. Navigation link must be added manually.''),
           (''navigationLinkError'', JStr ''WebSocket error: Invalid parameters'')]"

section \<open>The calls an operation issues\<close>

lemma grows_refl: "grows P c c"
  by (simp add: grows_def)

lemma grows_trans: "grows P c c1 \<Longrightarrow> grows P c1 c2 \<Longrightarrow> grows P c c2"
  by (auto simp: grows_def)

lemma grows_mono: "grows P c c' \<Longrightarrow> (\<And>k. P k \<Longrightarrow> Q k) \<Longrightarrow> grows Q c c'"
  by (auto simp: grows_def list_all_iff)

lemma grows_own_get: "grows P c c1 \<Longrightarrow> own_get c1 = own_get c"
  by (auto simp: grows_def own_get_def fun_eq_iff)

lemma grows_own_call: "grows P c c1 \<Longrightarrow> own_call c1 = own_call c"
  by (auto simp: grows_def own_call_def own_get_def fun_eq_iff)

lemma grows_get_call: "grows (own_get c) c0 c1 \<Longrightarrow> grows (own_call c) c0 c1"
  by (erule grows_mono) (simp add: own_call_def)

lemma own_get_not_post: "own_get c k \<Longrightarrow> \<not> is_post k"
  by (auto simp: own_get_def)

lemma split_on_none: "d \<notin> set s \<Longrightarrow> split_on d s = [s]"
  by (induction s) auto

lemma query_param_token:
  assumes "CHR ''#'' \<notin> set u" "CHR ''?'' \<notin> set u" "set key \<subseteq> set chars"
  shows "query_param (u @ ''?xrfkey='' @ key) ''xrfkey'' = Some key"
proof -
  have "CHR ''#'' \<notin> set chars" "CHR ''&'' \<notin> set chars" "CHR ''='' \<notin> set chars"
    by (simp_all add: chars_def)
  with assms(3) have k: "CHR ''#'' \<notin> set key" "CHR ''&'' \<notin> set key" "CHR ''='' \<notin> set key"
    by auto
  have tw: "takeWhile (\<lambda>ch. ch \<noteq> CHR ''#'') (u @ ''?xrfkey='' @ key) = u @ ''?xrfkey='' @ key"
    using assms(1) k(1) by (auto simp: takeWhile_eq_all_conv)
  have "dropWhile (\<lambda>ch. ch \<noteq> CHR ''?'') (u @ (''?xrfkey='' @ key))
                   = dropWhile (\<lambda>ch. ch \<noteq> CHR ''?'') (''?xrfkey='' @ key)"
    using assms(2) by (intro dropWhile_append2) auto
  then have dw: "dropWhile (\<lambda>ch. ch \<noteq> CHR ''?'') (u @ ''?xrfkey='' @ key) = ''?xrfkey='' @ key"
    by simp
  have q: "url_query (u @ ''?xrfkey='' @ key) = ''xrfkey='' @ key"
    unfolding url_query_def tw dw by simp
  have "CHR ''&'' \<notin> set (''xrfkey='' @ key)" using k(2) by simp
  then have s: "split_on (CHR ''&'') (''xrfkey='' @ key) = [''xrfkey='' @ key]"
    by (rule split_on_none)
  show ?thesis
    unfolding query_param_def q s by simp
qed

lemma token_in_url_own:
  "set key \<subseteq> set chars \<Longrightarrow> token_in_url key (u @ ''?xrfkey='' @ key)"
  using query_param_token [of u key]
  by (simp add: token_in_url_def url_before_token_def suffix_def)

lemma own_call_token:
  assumes "token_header c" "set (xrfKey c) \<subseteq> set chars" "own_call c k"
  shows "carries_token (xrfKey c) k"
proof -
  have t: "token_in_url (xrfKey c) (u @ ''?xrfkey='' @ xrfKey c)" for u
    by (rule token_in_url_own [OF assms(2)])
  from assms(3) consider
      u where "k = HttpGet (u @ ''?xrfkey='' @ xrfKey c) (axiosHeaders c)"
    | u body where "k = HttpPost (u @ ''?xrfkey='' @ xrfKey c) body (axiosHeaders c)"
    | u where "k = WsConnect u [(''X-Qlik-Xrfkey'', xrfKey c), (''X-Qlik-User'', userHeader (cfg c))]"
    unfolding own_call_def own_get_def by blast
  then show ?thesis
  proof cases
    case 1
    show ?thesis unfolding 1 carries_token.simps using t assms(1)
      by (simp only: token_header_def simp_thms)
  next
    case 2
    show ?thesis unfolding 2 carries_token.simps using t assms(1)
      by (simp only: token_header_def simp_thms)
  next
    case 3
    show ?thesis unfolding 3 by simp
  qed
qed

lemma axios_get_grows:
  assumes "axios_get R (u @ ''?xrfkey='' @ xrfKey c) c = (r, c1)"
  shows "grows (own_get c) c c1"
  using assms by (auto simp: axios_get_def Let_def grows_def own_get_def)

lemma axios_post_grows:
  assumes "axios_post R (u @ ''?xrfkey='' @ xrfKey c) body c = (r, c1)"
  shows "grows (own_call c) c c1"
  using assms by (auto simp: axios_post_def Let_def grows_def own_call_def)

lemma linksUrl_shape:
  "linksUrl c =
     (''https://'' @ qlikHost (cfg c) @ '':'' @ decimal (odagPort (cfg c)) @ ''/v1/links'')
       @ ''?xrfkey='' @ xrfKey c"
  by (simp add: linksUrl_def)

lemma authenticate_grows:
  assumes "authenticate R c = (r, c1)"
  shows "grows (own_get c) c c1"
proof -
  obtain r0 c0 where
    g: "axios_get R ((qrsBaseUrl (cfg c) @ ''/qrs/about'') @ ''?xrfkey='' @ xrfKey c) c = (r0, c0)"
    by force
  have "grows (own_get c) c c0" by (rule axios_get_grows [OF g])
  moreover have "grows (own_get c) c0 c1"
    using assms g
    by (auto simp: authenticate_def Let_def grows_def split: sum.splits prod.splits if_splits)
  ultimately show ?thesis by (rule grows_trans)
qed

lemma ensureAuthenticated_grows:
  assumes "ensureAuthenticated R c = (r, c1)"
  shows "grows (own_get c) c c1"
  using assms authenticate_grows
  by (auto simp: ensureAuthenticated_def grows_refl split: if_splits sum.splits prod.splits)

lemma ensureAuthenticated_idle:
  "authenticated c \<Longrightarrow> ensureAuthenticated R c = (Inr (), c)"
  by (simp add: ensureAuthenticated_def)

lemma validateAppId_try_grows:
  assumes "validateAppId_try R appId c = (r, c2)"
  shows "grows (own_get c) c c2"
proof -
  obtain r1 c1 where e: "ensureAuthenticated R c = (r1, c1)" by force
  have g1: "grows (own_get c) c c1" by (rule ensureAuthenticated_grows [OF e])
  show ?thesis
  proof (cases r1)
    case (Inl m)
    with assms e have "c2 = c1" by (simp add: validateAppId_try_def)
    with g1 show ?thesis by simp
  next
    case (Inr u)
    obtain r0 c0 where
      g: "axios_get R ((qrsBaseUrl (cfg c1) @ ''/qrs/app/'' @ to_string appId)
                          @ ''?xrfkey='' @ xrfKey c1) c1 = (r0, c0)"
      by force
    have "grows (own_get c1) c1 c0" by (rule axios_get_grows [OF g])
    then have g2: "grows (own_get c) c1 c0" using grows_own_get [OF g1] by simp
    have "c2 = c1 \<or> c2 = c0" using assms e Inr g
      by (auto simp: validateAppId_try_def to_string_chk_def Let_def
          split: sum.splits prod.splits if_splits)
    then show ?thesis using g1 g2 grows_trans by blast
  qed
qed

lemma validateAppId_grows:
  assumes "validateAppId R appId c = (r, c2)"
  shows "grows (own_get c) c c2"
  using assms validateAppId_try_grows
  by (auto simp: validateAppId_def split: sum.splits prod.splits)

lemma createODAGLink_try_grows:
  assumes "createODAGLink_try R linkConfig c = (r, c2)"
  shows "grows (own_call c) c c2"
proof -
  obtain r1 c1 where e: "ensureAuthenticated R c = (r1, c1)" by force
  have g1: "grows (own_get c) c c1" by (rule ensureAuthenticated_grows [OF e])
  then have g1': "grows (own_call c) c c1" by (rule grows_get_call)
  obtain r0 c0 where g: "axios_post R (linksUrl c1) (odagPayload linkConfig) c1 = (r0, c0)"
    by force
  have "grows (own_call c1) c1 c0"
    using axios_post_grows g unfolding linksUrl_shape by blast
  then have g2: "grows (own_call c) c1 c0" using grows_own_call [OF g1] by simp
  have "c2 = c1 \<or> c2 = c0" using assms e g
    by (auto simp: createODAGLink_try_def Let_def split: sum.splits prod.splits if_splits)
  then show ?thesis using g1' g2 grows_trans by blast
qed

lemma createODAGLink_grows:
  assumes "createODAGLink R linkConfig c = (r, c2)"
  shows "grows (own_call c) c c2"
  using assms createODAGLink_try_grows
  by (auto simp: createODAGLink_def split: sum.splits prod.splits)

lemma addNavigationLinkToApp_grows:
  assumes "addNavigationLinkToApp R a l n d c = (r, c1)"
  shows "grows (own_call c) c c1"
  using assms
  by (auto simp: addNavigationLinkToApp_def Let_def grows_def own_call_def
      split: sum.splits if_splits)

lemma testConnection_grows:
  assumes "testConnection R c = (r, c2)"
  shows "grows (own_get c) c c2"
proof -
  obtain r1 c1 where e: "authenticate R c = (r1, c1)" by force
  have g1: "grows (own_get c) c c1" by (rule authenticate_grows [OF e])
  obtain r0 c0 where g: "axios_get R (linksUrl c1) c1 = (r0, c0)" by force
  have "grows (own_get c1) c1 c0"
    using axios_get_grows g unfolding linksUrl_shape by blast
  then have g2: "grows (own_get c) c1 c0" using grows_own_get [OF g1] by simp
  have "c2 = c1 \<or> c2 = c0" using assms e g
    by (auto simp: testConnection_def Let_def split: sum.splits prod.splits)
  then show ?thesis using g1 g2 grows_trans by blast
qed

lemma createCompleteODAGLink_try_grows:
  assumes "createCompleteODAGLink_try R options c = (r, c')"
  shows "grows (own_call c) c c'"
proof -
  let ?sel = "getp options ''selectionAppId''" and ?tpl = "getp options ''templateAppId''"
  obtain r1 c1 where e1: "ensureAuthenticated R c = (r1, c1)" by force
  obtain r2 c2 where e2: "validateAppId R ?sel c1 = (r2, c2)" by force
  obtain r3 c3 where e3: "validateAppId R ?tpl c2 = (r3, c3)" by force
  obtain r4 c4 where e4: "createODAGLink R (linkConfigOf options) c3 = (r4, c4)" by force
  have g1: "grows (own_get c) c c1" by (rule ensureAuthenticated_grows [OF e1])
  have "grows (own_get c1) c1 c2" by (rule validateAppId_grows [OF e2])
  then have g2: "grows (own_get c) c1 c2" using grows_own_get [OF g1] by simp
  have g02: "grows (own_get c) c c2" using g1 g2 by (rule grows_trans)
  have "grows (own_get c2) c2 c3" by (rule validateAppId_grows [OF e3])
  then have g3: "grows (own_get c) c2 c3" using grows_own_get [OF g02] by simp
  have g03: "grows (own_get c) c c3" using g02 g3 by (rule grows_trans)
  have "grows (own_call c3) c3 c4" by (rule createODAGLink_grows [OF e4])
  then have g4: "grows (own_call c) c3 c4" using grows_own_call [OF g03] by simp
  have g04: "grows (own_call c) c c4" using grows_get_call [OF g03] g4 by (rule grows_trans)
  have g5: "grows (own_call c) c c5"
    if "addNavigationLinkToApp R a l n d c4 = (r5, c5)" for a l n d r5 c5
  proof -
    have "grows (own_call c4) c4 c5" using that by (rule addNavigationLinkToApp_grows)
    then have "grows (own_call c) c4 c5" using grows_own_call [OF g04] by simp
    with g04 show ?thesis by (rule grows_trans)
  qed
  show ?thesis
    using assms e1 e2 e3 e4 grows_get_call [OF g1] grows_get_call [OF g02]
      grows_get_call [OF g03] g04 g5
    unfolding createCompleteODAGLink_try_def Let_def
    by (auto split: sum.splits prod.splits option.splits if_splits)
qed

lemma createCompleteODAGLink_grows:
  assumes "createCompleteODAGLink R options c = (r, c')"
  shows "grows (own_call c) c c'"
  using assms createCompleteODAGLink_try_grows
  by (auto simp: createCompleteODAGLink_def split: sum.splits prod.splits option.splits)

lemma perform_grows: "grows (own_call c) c (perform R op c)"
proof (cases op)
  case Authenticate
  then show ?thesis
    using authenticate_grows [of R c] grows_get_call by (cases "authenticate R c") auto
next
  case (ValidateAppId appId)
  then show ?thesis
    using validateAppId_grows [of R appId c] grows_get_call
    by (cases "validateAppId R appId c") auto
next
  case (CreateODAGLink linkConfig)
  then show ?thesis
    using createODAGLink_grows [of R linkConfig c]
    by (cases "createODAGLink R linkConfig c") auto
next
  case (AddNavigationLinkToApp a l n d)
  then show ?thesis
    using addNavigationLinkToApp_grows [of R a l n d c]
    by (cases "addNavigationLinkToApp R a l n d c") auto
next
  case (CreateCompleteODAGLink options)
  then show ?thesis
    using createCompleteODAGLink_grows [of R options c]
    by (cases "createCompleteODAGLink R options c") auto
next
  case TestConnection
  then show ?thesis
    using testConnection_grows [of R c] grows_get_call
    by (cases "testConnection R c") auto
qed

lemma perform_all_grows: "grows (own_call c) c (perform_all R ops c)"
proof (induction ops arbitrary: c)
  case Nil
  show ?case by (simp add: grows_refl)
next
  case (Cons op ops)
  have 1: "grows (own_call c) c (perform R op c)" by (rule perform_grows)
  have "grows (own_call (perform R op c)) (perform R op c) (perform_all R ops (perform R op c))"
    by (rule Cons.IH)
  then have "grows (own_call c) (perform R op c) (perform_all R ops (perform R op c))"
    using grows_own_call [OF 1] by simp
  with 1 show ?case by (simp add: grows_trans)
qed

section \<open>Link creation\<close>

lemma demo_key: "generateXrfKey (\<lambda>i. 31) = ''FFFFFFFFFFFFFFFF''"
  by (simp add: generateXrfKey_def xrfLoop.simps chars_def charAt_def)

lemma demo_creator_eq:
  "demo_creator =
     \<lparr> cfg = demo_config, xrfKey = ''FFFFFFFFFFFFFFFF'',
       axiosHeaders = [(''X-Qlik-Xrfkey'', ''FFFFFFFFFFFFFFFF''),
                       (''X-Qlik-User'', ''UserDirectory=CORP; UserId=svc''),
                       (''Content-Type'', ''application/json'')],
       authenticated = False, issued = [] \<rparr>"
  by (simp add: demo_creator_def new_ODAGLinkCreator_def demo_key userHeader_def demo_config_def
        Let_def)




text \<open>
  What \<open>createODAGLink\<close> returns once authentication is through and \<open>linkConfig\<close> is an
  object: when the four fields it logs print, the reply to its one POST decides; when one
  of them does not, it throws before the POST.
\<close>

lemma createODAGLink_fst:
  assumes "\<not> nullish linkConfig"
      and "ensureAuthenticated R c = (Inr (), c1)"
      and "http R (issued c1) (HttpPost (linksUrl c1) (odagPayload linkConfig) (axiosHeaders c1))
             = reply"
  shows "createODAGLink R linkConfig c =
     (if list_all printable [getp linkConfig ''name'', getp linkConfig ''selectionAppId'',
                             getp linkConfig ''templateAppId'', getp linkConfig ''rowEstExpr'']
      then
        (case axios_settle reply of
           Inl e \<Rightarrow> Inl (createODAGLink_catch e)
         | Inr (status, body) \<Rightarrow>
             if truthy (getp (getp body ''objectDef'') ''id'') then
               (if printable (getp (getp body ''objectDef'') ''id'')
                then Inr (getp body ''objectDef'')
                else Inl ''Failed to create ODAG link: Cannot convert object to primitive value'')
             else if truthy (getp body ''id'') then
               (if printable (getp body ''id'') then Inr body
                else Inl ''Failed to create ODAG link: Cannot convert object to primitive value'')
             else Inl ''Failed to create ODAG link: Failed to create ODAG link - no ID returned'',
         c1\<lparr> issued := issued c1
                 @ [HttpPost (linksUrl c1) (odagPayload linkConfig) (axiosHeaders c1)] \<rparr>)
      else (Inl ''Failed to create ODAG link: Cannot convert object to primitive value'', c1))"
proof -
  have shape:
    "truthy (js_and (js_and body (getp body ''objectDef'')) (getp (getp body ''objectDef'') ''id''))
       = truthy (getp (getp body ''objectDef'') ''id'')"
    "truthy (js_and body (getp body ''id'')) = truthy (getp body ''id'')" for body
    by (cases body; cases "getp body ''objectDef''"; simp add: js_and_def)+
  show ?thesis
    using assms
    by (simp add: createODAGLink_def createODAGLink_try_def getp_chk_def axios_post_def
          Let_def shape createODAGLink_catch_def plain_error_def log_values_def
        split: sum.splits prod.splits)
qed





lemma payload_blocks:
  "getp (getp (odagPayload linkConfig) ''properties'') ''rowEstRange'' =
     js_or (getp linkConfig ''rowEstRange'') defaultRowEstRange"
  "getp (getp (odagPayload linkConfig) ''properties'') ''appRetentionTime'' =
     js_or (getp linkConfig ''appRetentionTime'') defaultAppRetentionTime"
  "getp (getp (odagPayload linkConfig) ''properties'') ''genAppName'' =
     js_or (getp linkConfig ''genAppName'') (defaultGenAppName linkConfig)"
  by (simp_all add: odagPayload_def)

text \<open>
  C9. In the payload \<open>createODAGLink\<close> posts, each of the three policy blocks is the
  block of \<open>linkConfig\<close> when the caller supplied one (any array or object: any truthy
  value) and its default when the block is omitted: row-estimation bounds with context
  \<open>User_*\<close> and range 1 to 500000, retention of 10080 minutes, and a generated-name format
  string made from the link name. Each block is decided by its own field alone. On an
  authenticated instance, for a configuration object whose name, application ids and
  row-estimation expression print, this payload is the body of the one call the function
  issues; when one of the four does not print, the function issues no call.
\<close>

theorem createODAGLink_policy_defaults:
  "getp (getp (odagPayload linkConfig) ''properties'') ''rowEstRange'' =
     (if truthy (getp linkConfig ''rowEstRange'') then getp linkConfig ''rowEstRange''
      else JArr [JObj [(''context'', JStr ''User_*''), (''lowBound'', JNum 1),
                       (''highBound'', JNum 500000)]])
   \<and> getp (getp (odagPayload linkConfig) ''properties'') ''appRetentionTime'' =
     (if truthy (getp linkConfig ''appRetentionTime'') then getp linkConfig ''appRetentionTime''
      else JArr [JObj [(''context'', JStr ''User_*''), (''minutes'', JNum 10080)]])
   \<and> getp (getp (odagPayload linkConfig) ''properties'') ''genAppName'' =
     (if truthy (getp linkConfig ''genAppName'') then getp linkConfig ''genAppName''
      else JArr [JObj [(''context'', JStr ''User_*''),
                       (''formatString'',
                          JStr (to_string (getp linkConfig ''name'')
                                  @ '' - $(user.name) - $(=Now())''))]])
   \<and> (authenticated c \<and> \<not> nullish linkConfig \<longrightarrow>
        issued (snd (createODAGLink R linkConfig c)) =
          (if printable (getp linkConfig ''name'') \<and> printable (getp linkConfig ''selectionAppId'')
              \<and> printable (getp linkConfig ''templateAppId'')
              \<and> printable (getp linkConfig ''rowEstExpr'')
           then issued c @ [HttpPost (linksUrl c) (odagPayload linkConfig) (axiosHeaders c)]
           else issued c))"
proof -
  have "issued (snd (createODAGLink R linkConfig c)) =
          (if printable (getp linkConfig ''name'') \<and> printable (getp linkConfig ''selectionAppId'')
              \<and> printable (getp linkConfig ''templateAppId'')
              \<and> printable (getp linkConfig ''rowEstExpr'')
           then issued c @ [HttpPost (linksUrl c) (odagPayload linkConfig) (axiosHeaders c)]
           else issued c)"
    if "authenticated c" "\<not> nullish linkConfig"
    using createODAGLink_fst [OF that(2) ensureAuthenticated_idle [OF that(1)] refl] by simp
  then show ?thesis
    unfolding payload_blocks
    by (simp add: js_or_def defaultRowEstRange_def defaultAppRetentionTime_def
          defaultGenAppName_def)
qed

theorem createODAGLink_policy_defaults_witness:
  "getp (getp (odagPayload demo_linkConfig) ''properties'') ''rowEstRange'' =
     JArr [JObj [(''context'', JStr ''User_*''), (''lowBound'', JNum 1), (''highBound'', JNum 1000)]]
   \<and> getp (getp (odagPayload demo_linkConfig) ''properties'') ''appRetentionTime'' =
     JArr [JObj [(''context'', JStr ''User_*''), (''minutes'', JNum 10080)]]
   \<and> getp (getp (odagPayload demo_linkConfig) ''properties'') ''genAppName'' =
     JArr [JObj [(''context'', JStr ''User_*''),
                 (''formatString'', JStr ''Sales Detail - $(user.name) - $(=Now())'')]]
   \<and> issued (snd (createODAGLink (scripted [] []) demo_linkConfig demo_authenticated)) =
       [HttpPost (linksUrl demo_authenticated) (odagPayload demo_linkConfig)
          (axiosHeaders demo_authenticated)]"
  using createODAGLink_policy_defaults [of demo_linkConfig demo_authenticated "scripted [] []"]
  by (simp add: demo_linkConfig_def demo_authenticated_def demo_creator_eq)

section \<open>The engine session\<close>

lemma ws_send_closing: "closing s \<Longrightarrow> ws_send frame s = Inr s"
  by (auto simp: ws_send_def closing_def)

lemma ws_close_closing: "closing (ws_close code s)"
  by (simp add: ws_close_def closing_def)

lemma ws_close_sent: "sent (ws_close code s) = sent s"
  by (simp add: ws_close_def)

lemma reject_fields:
  "sent (reject m s) = sent s" "closing (reject m s) = closing s"
  "requests (reject m s) = requests s" "requestId (reject m s) = requestId s"
  "readyState (reject m s) = readyState s" "closeCalls (reject m s) = closeCalls s"
  by (simp_all add: reject_def closing_def)

lemma on_message_try_closing:
  assumes "closing s"
  shows "case on_message_try l p s of
           Inl (m, s1) \<Rightarrow> closing s1 \<and> sent s1 = sent s
         | Inr s1 \<Rightarrow> closing s1 \<and> sent s1 = sent s"
  using assms
  by (auto simp: on_message_try_def Let_def ws_send_closing closing_def ws_close_def
        reject_def resolve_def ws_send_def
      split: sum.splits prod.splits option.splits if_splits)

lemma on_message_closing:
  assumes "closing s"
  shows "closing (on_message l p s) \<and> sent (on_message l p s) = sent s"
  using on_message_try_closing [OF assms, of l p]
  by (auto simp: on_message_def reject_fields ws_close_closing ws_close_sent
      split: sum.splits prod.splits)

lemma handle_event_closing:
  assumes "closing s"
  shows "closing (handle_event a l e s) \<and> sent (handle_event a l e s) = sent s"
proof (cases e)
  case (Message p)
  then show ?thesis using on_message_closing [OF assms] by simp
qed (use assms in \<open>auto simp: closing_def on_error_def on_close_def on_timeout_def reject_def
       ws_close_def Let_def\<close>)

lemma run_events_closing:
  "closing s \<Longrightarrow> closing (run_events a l evs s) \<and> sent (run_events a l evs s) = sent s"
proof (induction evs arbitrary: s)
  case Nil
  then show ?case by simp
next
  case (Cons e evs)
  from handle_event_closing [OF Cons.prems, of a l e]
  have c: "closing (handle_event a l e s)" and k: "sent (handle_event a l e s) = sent s"
    by simp_all
  from Cons.IH [OF c] k show ?case by simp
qed

lemma on_message_error:
  assumes "\<not> nullish r" "truthy (getp r ''error'')"
  shows "on_message l (Inr r) s =
           (if printable (getp (getp r ''error'') ''message'')
            then reject (''WebSocket error: '' @ to_string (getp (getp r ''error'') ''message''))
                   (ws_close None s)
            else reject ''Failed to parse WebSocket response: Cannot convert object to primitive value''
                   (ws_close None (ws_close None s)))"
  using assms
  by (simp add: on_message_def on_message_try_def getp_chk_def to_string_chk_def Let_def)

lemma requests_get_Some_object:
  "requests_get t (getp r k) = Some x \<Longrightarrow> \<not> nullish r"
  by (cases r) (simp_all add: requests_get_def)


lemma on_message_openApp:
  assumes "requests_get (requests s) (getp r ''id'') = Some ''openApp''"
      and "\<not> truthy (getp r ''error'')" "qHandle_of r = Inr h" "readyState s = OPEN"
  shows "on_message l (Inr r) s =
           s\<lparr> appHandle := h,
              requests := (requests s)(requestId s \<mapsto> ''createObject''),
              sent := sent s @ [createObjectRequest h l (requestId s)],
              requestId := requestId s + 1 \<rparr>"
  using assms requests_get_Some_object [OF assms(1)]
  by (simp add: on_message_def on_message_try_def getp_chk_def Let_def ws_send_def)

lemma on_message_createObject:
  assumes "requests_get (requests s) (getp r ''id'') = Some ''createObject''"
      and "\<not> truthy (getp r ''error'')" "readyState s = OPEN"
  shows "on_message l (Inr r) s =
           s\<lparr> requests := (requests s)(requestId s \<mapsto> ''save''),
              sent := sent s @ [saveRequest (appHandle s) (requestId s)],
              requestId := requestId s + 1 \<rparr>"
  using assms requests_get_Some_object [OF assms(1)]
  by (simp add: on_message_def on_message_try_def getp_chk_def Let_def ws_send_def)

lemma on_message_save:
  assumes "requests_get (requests s) (getp r ''id'') = Some ''save''"
      and "\<not> truthy (getp r ''error'')"
  shows "on_message l (Inr r) s =
           resolve ''ODAG app link created and app saved'' (ws_close None s)"
  using assms requests_get_Some_object [OF assms(1)]
  by (simp add: on_message_def on_message_try_def getp_chk_def Let_def)



lemma run_open:
  "run_events a l [Open] init_session =
     init_session\<lparr> readyState := OPEN, timerArmed := False,
        requests := [1 \<mapsto> ''openApp''], sent := [openAppRequest a 1], requestId := 2 \<rparr>"
  by (simp add: init_session_def on_open_def ws_send_def Let_def)


lemma frame_id_requests [simp]:
  "frame_id (openAppRequest a n) = n" "frame_id (createObjectRequest h l n) = n"
  "frame_id (saveRequest h n) = n"
  by (simp_all add: frame_id_def openAppRequest_def createObjectRequest_def saveRequest_def)





lemma follow_up_requests [simp]:
  "follow_up hs (createObjectRequest h l n) = (h \<in> set hs)"
  "follow_up hs (saveRequest h n) = (h \<in> set hs)"
  by (simp_all add: follow_up_def createObjectRequest_def saveRequest_def)












lemma on_message_try_outcome:
  assumes "outcome s = Some x"
  shows "case on_message_try l p s of
           Inl (m, s1) \<Rightarrow> outcome s1 = Some x
         | Inr s1 \<Rightarrow> outcome s1 = Some x"
  using assms
  by (auto simp: on_message_try_def Let_def ws_close_def reject_def resolve_def ws_send_def
      split: sum.splits prod.splits option.splits if_splits)

lemma handle_event_outcome:
  assumes "outcome s = Some x"
  shows "outcome (handle_event a l e s) = Some x"
proof (cases e)
  case (Message p)
  then show ?thesis using on_message_try_outcome [OF assms, of l p]
    by (auto simp: on_message_def reject_def ws_close_def split: sum.splits prod.splits)
qed (use assms in \<open>auto simp: on_open_def on_error_def on_close_def on_timeout_def reject_def
       ws_close_def ws_send_def Let_def\<close>)

lemma run_events_outcome:
  "outcome s = Some x \<Longrightarrow> outcome (run_events a l evs s) = Some x"
  by (induction evs arbitrary: s) (simp_all add: handle_event_outcome)

text \<open>
  C7 (as amended). When a response that matches a pending request carries an error field,
  the driver closes the connection by \<open>ws.close()\<close>, passing no status code, and rejects
  with \<open>WebSocket error: \<close> followed by the text of the remote error's message,
  unchanged; no further frame goes on the wire, whatever arrives afterwards: in particular
  no save request follows a create-object response with an error. While the promise is
  pending the rejection takes effect and stands. (When the message of the remote error is
  a value that does not print, the conversion throws after the close: the driver closes
  again and rejects with the parse-failure message.)
\<close>

theorem error_response_is_terminal:
  assumes "requests_get (requests s) (getp r ''id'') = Some kind"
      and "truthy (getp r ''error'')"
  shows "on_message l (Inr r) s
           = (if printable (getp (getp r ''error'') ''message'')
              then reject (''WebSocket error: '' @ to_string (getp (getp r ''error'') ''message''))
                     (ws_close None s)
              else reject
                     ''Failed to parse WebSocket response: Cannot convert object to primitive value''
                     (ws_close None (ws_close None s)))
       \<and> closeCalls (on_message l (Inr r) s)
           = closeCalls s @ (if printable (getp (getp r ''error'') ''message'') then [None]
                             else [None, None])
       \<and> last (closeCalls (on_message l (Inr r) s)) = None
       \<and> readyState (on_message l (Inr r) s) \<noteq> OPEN
       \<and> sent (on_message l (Inr r) s) = sent s
       \<and> (\<forall>evs. sent (run_events a l evs (on_message l (Inr r) s)) = sent s)
       \<and> (outcome s = None \<longrightarrow>
            (\<exists>m. outcome (on_message l (Inr r) s) = Some (Inl m)
                 \<and> (\<forall>evs. outcome (run_events a l evs (on_message l (Inr r) s)) = Some (Inl m)))
            \<and> (printable (getp (getp r ''error'') ''message'') \<longrightarrow>
                 outcome (on_message l (Inr r) s)
                   = Some (Inl (''WebSocket error: ''
                                  @ to_string (getp (getp r ''error'') ''message''))))
            \<and> (\<forall>text. getp (getp r ''error'') ''message'' = JStr text \<longrightarrow>
                  outcome (on_message l (Inr r) s) = Some (Inl (''WebSocket error: '' @ text))
                  \<and> (\<forall>evs. outcome (run_events a l evs (on_message l (Inr r) s))
                        = Some (Inl (''WebSocket error: '' @ text)))))"
proof -
  let ?msg = "getp (getp r ''error'') ''message''"
  let ?s = "on_message l (Inr r) s"
  have nn: "\<not> nullish r" using assms(1) by (rule requests_get_Some_object)
  note e = on_message_error [OF nn assms(2), of l s]
  have c: "closing ?s"
    by (simp add: e reject_fields ws_close_closing)
  have k: "sent ?s = sent s"
    by (simp add: e reject_fields ws_close_sent)
  have r: "closeCalls ?s = closeCalls s @ (if printable ?msg then [None] else [None, None])"
    by (simp add: e reject_fields ws_close_def)
  have o: "\<exists>m. outcome ?s = Some (Inl m)" if "outcome s = None"
    using that by (simp add: e reject_def ws_close_def)
  have op: "outcome ?s = Some (Inl (''WebSocket error: '' @ to_string ?msg))"
    if "outcome s = None" "printable ?msg"
    using that by (simp add: e reject_def ws_close_def)
  have 1: "closeCalls ?s = closeCalls s @ (if printable ?msg then [None] else [None, None])
       \<and> last (closeCalls ?s) = None
       \<and> readyState ?s \<noteq> OPEN
       \<and> sent ?s = sent s
       \<and> (\<forall>evs. sent (run_events a l evs ?s) = sent s)"
    using c k r run_events_closing [OF c, of a l]
    by (auto simp: closing_def)
  have 2: "(\<exists>m. outcome ?s = Some (Inl m)
                 \<and> (\<forall>evs. outcome (run_events a l evs ?s) = Some (Inl m)))
            \<and> (printable ?msg \<longrightarrow>
                 outcome ?s = Some (Inl (''WebSocket error: '' @ to_string ?msg)))
            \<and> (\<forall>text. ?msg = JStr text \<longrightarrow>
                  outcome ?s = Some (Inl (''WebSocket error: '' @ text))
                  \<and> (\<forall>evs. outcome (run_events a l evs ?s)
                        = Some (Inl (''WebSocket error: '' @ text))))"
    if p: "outcome s = None"
  proof -
    from o [OF p] obtain m where m: "outcome ?s = Some (Inl m)" by blast
    have "\<forall>evs. outcome (run_events a l evs ?s) = Some (Inl m)"
      using run_events_outcome [OF m, of a l] by simp
    moreover have "outcome ?s = Some (Inl (''WebSocket error: '' @ mt))
                  \<and> (\<forall>evs. outcome (run_events a l evs ?s)
                        = Some (Inl (''WebSocket error: '' @ mt)))"
      if t: "?msg = JStr mt" for mt
    proof -
      have "outcome ?s = Some (Inl (''WebSocket error: '' @ mt))"
        using op [OF p] t by simp
      then show ?thesis using run_events_outcome [of ?s _ a l] by simp
    qed
    ultimately show ?thesis using m op [OF p] by blast
  qed
  show ?thesis using e 1 2 by blast
qed







lemma demo_session_open:
  "run_events (JStr ''A'') (JStr ''link-1'') [Open, Message (Inr demo_openDocReply)] init_session
     = init_session\<lparr> readyState := OPEN, timerArmed := False, appHandle := JNum 7,
         requests := [1 \<mapsto> ''openApp'', 2 \<mapsto> ''createObject''],
         sent := [openAppRequest (JStr ''A'') 1,
                  createObjectRequest (JNum 7) (JStr ''link-1'') 2],
         requestId := 3 \<rparr>"
proof -
  have "run_events (JStr ''A'') (JStr ''link-1'') [Open, Message (Inr demo_openDocReply)] init_session
          = on_message (JStr ''link-1'') (Inr demo_openDocReply)
              (run_events (JStr ''A'') (JStr ''link-1'') [Open] init_session)"
    by simp
  also have "\<dots> = init_session\<lparr> readyState := OPEN, timerArmed := False, appHandle := JNum 7,
         requests := [1 \<mapsto> ''openApp'', 2 \<mapsto> ''createObject''],
         sent := [openAppRequest (JStr ''A'') 1,
                  createObjectRequest (JNum 7) (JStr ''link-1'') 2],
         requestId := 3 \<rparr>"
    unfolding run_open
    by (subst on_message_openApp [where h = "JNum 7"])
       (simp_all add: demo_openDocReply_def qHandle_of_def getp_chk_def log_values_def
          requests_get_def init_session_def)
  finally show ?thesis .
qed

text \<open>
  The session of the scenario that succeeds: the promise resolves, and the one call of
  \<open>ws.close\<close> passes no code.
\<close>

lemma demo_session_saved:
  "outcome (run_events (JStr ''A'') (JStr ''link-1'')
      [Open, Message (Inr demo_openDocReply), Message (Inr (demo_reply 2)),
       Message (Inr (demo_reply 3))] init_session)
     = Some (Inr ''ODAG app link created and app saved'')"
  "closeCalls (run_events (JStr ''A'') (JStr ''link-1'')
      [Open, Message (Inr demo_openDocReply), Message (Inr (demo_reply 2)),
       Message (Inr (demo_reply 3))] init_session)
     = [None]"
proof -
  define s2 where
    "s2 = run_events (JStr ''A'') (JStr ''link-1'') [Open, Message (Inr demo_openDocReply)]
            init_session"
  have s2: "s2 = init_session\<lparr> readyState := OPEN, timerArmed := False, appHandle := JNum 7,
         requests := [1 \<mapsto> ''openApp'', 2 \<mapsto> ''createObject''],
         sent := [openAppRequest (JStr ''A'') 1,
                  createObjectRequest (JNum 7) (JStr ''link-1'') 2],
         requestId := 3 \<rparr>"
    unfolding s2_def by (rule demo_session_open)
  define s3 where "s3 = on_message (JStr ''link-1'') (Inr (demo_reply 2)) s2"
  have s3: "s3 = s2\<lparr> requests := (requests s2)(requestId s2 \<mapsto> ''save''),
              sent := sent s2 @ [saveRequest (appHandle s2) (requestId s2)],
              requestId := requestId s2 + 1 \<rparr>"
    unfolding s3_def
    by (rule on_message_createObject) (simp_all add: s2 demo_reply_def requests_get_def)
  have s4: "on_message (JStr ''link-1'') (Inr (demo_reply 3)) s3
          = resolve ''ODAG app link created and app saved'' (ws_close None s3)"
    by (rule on_message_save) (simp_all add: s3 s2 demo_reply_def requests_get_def)
  have "outcome (on_message (JStr ''link-1'') (Inr (demo_reply 3)) s3)
               = Some (Inr ''ODAG app link created and app saved'')"
    "closeCalls (on_message (JStr ''link-1'') (Inr (demo_reply 3)) s3) = [None]"
    unfolding s4 by (simp_all add: s3 s2 resolve_def ws_close_def init_session_def)
  then show
    "outcome (run_events (JStr ''A'') (JStr ''link-1'')
      [Open, Message (Inr demo_openDocReply), Message (Inr (demo_reply 2)),
       Message (Inr (demo_reply 3))] init_session)
     = Some (Inr ''ODAG app link created and app saved'')"
    "closeCalls (run_events (JStr ''A'') (JStr ''link-1'')
      [Open, Message (Inr demo_openDocReply), Message (Inr (demo_reply 2)),
       Message (Inr (demo_reply 3))] init_session)
     = [None]"
    unfolding s3_def s2_def by simp_all
qed


theorem error_response_is_terminal_witness:
  "requests_get
      (requests (run_events (JStr ''A'') (JStr ''link-1'')
                   [Open, Message (Inr demo_openDocReply)] init_session))
      (getp (demo_errorReply 2) ''id'') = Some ''createObject''
   \<and> outcome (on_message (JStr ''link-1'') (Inr (demo_errorReply 2))
        (run_events (JStr ''A'') (JStr ''link-1'')
           [Open, Message (Inr demo_openDocReply)] init_session))
       = Some (Inl ''WebSocket error: Invalid parameters'')
   \<and> sent (run_events (JStr ''A'') (JStr ''link-1'') [Message (Inr (demo_reply 2))]
        (on_message (JStr ''link-1'') (Inr (demo_errorReply 2))
           (run_events (JStr ''A'') (JStr ''link-1'')
              [Open, Message (Inr demo_openDocReply)] init_session)))
       = [openAppRequest (JStr ''A'') 1, createObjectRequest (JNum 7) (JStr ''link-1'') 2]"
proof -
  let ?s = "run_events (JStr ''A'') (JStr ''link-1'')
              [Open, Message (Inr demo_openDocReply)] init_session"
  have h1: "requests_get (requests ?s) (getp (demo_errorReply 2) ''id'') = Some ''createObject''"
    unfolding demo_session_open by (simp add: demo_errorReply_def requests_get_def)
  have h2: "truthy (getp (demo_errorReply 2) ''error'')"
    by (simp add: demo_errorReply_def)
  have h3: "outcome ?s = None"
    unfolding demo_session_open by (simp add: init_session_def)
  have t: "getp (getp (demo_errorReply 2) ''error'') ''message'' = JStr ''Invalid parameters''"
    by (simp add: demo_errorReply_def)
  have k: "sent ?s = [openAppRequest (JStr ''A'') 1,
                       createObjectRequest (JNum 7) (JStr ''link-1'') 2]"
    unfolding demo_session_open by simp
  note T = error_response_is_terminal [OF h1 h2, of "JStr ''link-1''" "JStr ''A''"]
  from T h3 t have o: "outcome (on_message (JStr ''link-1'') (Inr (demo_errorReply 2)) ?s)
                      = Some (Inl (''WebSocket error: '' @ ''Invalid parameters''))"
    by blast
  from T have "\<forall>evs. sent (run_events (JStr ''A'') (JStr ''link-1'') evs
                   (on_message (JStr ''link-1'') (Inr (demo_errorReply 2)) ?s)) = sent ?s"
    by blast
  then have n: "sent (run_events (JStr ''A'') (JStr ''link-1'') [Message (Inr (demo_reply 2))]
                   (on_message (JStr ''link-1'') (Inr (demo_errorReply 2)) ?s)) = sent ?s"
    by (rule spec)
  show ?thesis
    using h1 o n unfolding k by simp
qed

text \<open>
  The claim has the driver close the connection with a non-normal code. On the response
  with an error field the driver calls \<open>ws.close()\<close> and passes no code at all: the
  record of its close calls is the one the session that succeeds leaves after the save is
  confirmed.
\<close>

theorem error_response_is_terminal_counterexample:
  "truthy (getp (demo_errorReply 2) ''error'')
   \<and> closeCalls (on_message (JStr ''link-1'') (Inr (demo_errorReply 2))
        (run_events (JStr ''A'') (JStr ''link-1'')
           [Open, Message (Inr demo_openDocReply)] init_session)) = [None]
   \<and> closeCalls (run_events (JStr ''A'') (JStr ''link-1'') demo_ok_events init_session) = [None]"
proof -
  have a: "closeCalls (on_message (JStr ''link-1'') (Inr (demo_errorReply 2))
        (run_events (JStr ''A'') (JStr ''link-1'')
           [Open, Message (Inr demo_openDocReply)] init_session)) = [None]"
    unfolding demo_session_open
    by (subst on_message_error)
       (simp_all add: demo_errorReply_def reject_def ws_close_def init_session_def)
  have b: "closeCalls (run_events (JStr ''A'') (JStr ''link-1'') demo_ok_events init_session)
             = [None]"
    unfolding demo_ok_events_def by (rule demo_session_saved(2))
  have c: "truthy (getp (demo_errorReply 2) ''error'')"
    by (simp add: demo_errorReply_def)
  show ?thesis by (rule conjI [OF c conjI [OF a b]])
qed


section \<open>Provisioning\<close>

text \<open>
  What \<open>validateAppId\<close> has established when it returns: an id that prints and, for a
  valid application, a name that prints; and what it throws.
\<close>

lemma validateAppId_invalid:
  assumes "validateAppId R appId c = (Inr v, c1)" "\<not> truthy (getp v ''valid'')"
  shows "v = JObj [(''valid'', JBool False),
                   (''error'', JStr (''App ID not found: '' @ to_string appId))]"
  using assms
  by (auto simp: validateAppId_def validateAppId_try_def validateAppId_catch_def
        to_string_chk_def log_values_def Let_def
      split: sum.splits prod.splits option.splits if_splits)

lemma validateAppId_valid:
  assumes "validateAppId R appId c = (Inr v, c1)" "truthy (getp v ''valid'')"
  shows "printable appId \<and> printable (getp v ''name'')"
  using assms
  by (auto simp: validateAppId_def validateAppId_try_def validateAppId_catch_def
        to_string_chk_def log_values_def Let_def
      split: sum.splits prod.splits option.splits if_splits)

lemma validateAppId_throws:
  assumes "validateAppId R appId c = (Inl m, c1)"
  shows "if printable appId
         then prefix (''Failed to validate app ID '' @ to_string appId @ '': '') m
         else m = ''Cannot convert object to primitive value''"
  using assms
  by (auto simp: validateAppId_def validateAppId_catch_def to_string_chk_def
      split: sum.splits prod.splits option.splits if_splits)

lemma createCompleteODAGLink_auth_fails:
  assumes "ensureAuthenticated R c = (Inl m, c1)"
  shows "createCompleteODAGLink R options c = (Some (failureResult m), c1)"
  using assms by (simp add: createCompleteODAGLink_def createCompleteODAGLink_try_def)

lemma createCompleteODAGLink_missing:
  assumes "ensureAuthenticated R c = (Inr (), c1)" "\<not> nullish options"
      and "\<not> truthy (getp options ''selectionAppId'') \<or> \<not> truthy (getp options ''templateAppId'')
           \<or> \<not> truthy (getp options ''linkName'') \<or> \<not> truthy (getp options ''rowEstExpr'')"
  shows "createCompleteODAGLink R options c =
     (Some (failureResult
        (if \<not> truthy (getp options ''selectionAppId'') \<or> \<not> truthy (getp options ''templateAppId'')
         then ''Missing required fields: selectionAppId and templateAppId are required''
         else if \<not> truthy (getp options ''linkName'') then ''Missing required field: linkName''
         else ''Missing required field: rowEstExpr'')), c1)"
  using assms
  by (auto simp: createCompleteODAGLink_def createCompleteODAGLink_try_def getp_chk_def
        js_and_def Let_def)

lemma createCompleteODAGLink_validated:
  assumes "ensureAuthenticated R c = (Inr (), c1)"
      and "truthy (getp options ''selectionAppId'')" "truthy (getp options ''templateAppId'')"
          "truthy (getp options ''linkName'')" "truthy (getp options ''rowEstExpr'')"
      and "validateAppId R (getp options ''selectionAppId'') c1 = (Inr sv, c2)"
      and "validateAppId R (getp options ''templateAppId'') c2 = (rt, c3)"
  shows "createCompleteODAGLink_try R options c =
     (case rt of
        Inl m \<Rightarrow> (Some (Inl m), c3)
      | Inr tv \<Rightarrow>
          if \<not> truthy (getp sv ''valid'') then
            (Some (Inl (thrown_template ''Selection app validation failed: ''
                          (getp sv ''error''))), c3)
          else if \<not> truthy (getp tv ''valid'') then
            (Some (Inl (thrown_template ''Template app validation failed: ''
                          (getp tv ''error''))), c3)
          else
            (case log_values [getp sv ''name'', getp options ''selectionAppId'',
                              getp tv ''name'', getp options ''templateAppId''] of
               Inl m \<Rightarrow> (Some (Inl m), c3)
             | Inr u \<Rightarrow>
            (case createODAGLink R (linkConfigOf options) c3 of
               (Inl m, c4) \<Rightarrow> (Some (Inl m), c4)
             | (Inr odagLink, c4) \<Rightarrow>
                 (case addNavigationLinkToApp R (getp options ''selectionAppId'')
                         (getp odagLink ''id'') (getp options ''linkName'')
                         (js_or (getp options ''description'')
                            (JStr ''On-demand app generation link'')) c4 of
                    (None, c5) \<Rightarrow> (None, c5)
                  | (Some (Inr r), c5) \<Rightarrow> (Some (Inr (successResult options odagLink sv tv)), c5)
                  | (Some (Inl navError), c5) \<Rightarrow>
                      (Some (Inr (partialResult options odagLink sv tv navError)), c5)))))"
proof -
  have nn: "\<not> nullish options" using assms(2) by (cases options) simp_all
  show ?thesis
    using assms nn
    by (simp add: createCompleteODAGLink_try_def getp_chk_def js_and_def Let_def
        split: sum.splits)
qed

lemma createCompleteODAGLink_created:
  assumes "ensureAuthenticated R c = (Inr (), c1)"
      and "truthy (getp options ''selectionAppId'')" "truthy (getp options ''templateAppId'')"
          "truthy (getp options ''linkName'')" "truthy (getp options ''rowEstExpr'')"
      and "validateAppId R (getp options ''selectionAppId'') c1 = (Inr sv, c2)"
          "truthy (getp sv ''valid'')"
      and "validateAppId R (getp options ''templateAppId'') c2 = (Inr tv, c3)"
          "truthy (getp tv ''valid'')"
      and "createODAGLink R (linkConfigOf options) c3 = (Inr odagLink, c4)"
      and "addNavigationLinkToApp R (getp options ''selectionAppId'') (getp odagLink ''id'')
             (getp options ''linkName'')
             (js_or (getp options ''description'') (JStr ''On-demand app generation link'')) c4
           = (nav, c5)"
  shows "createCompleteODAGLink R options c =
     (case nav of
        None \<Rightarrow> None
      | Some (Inr r) \<Rightarrow> Some (successResult options odagLink sv tv)
      | Some (Inl navError) \<Rightarrow> Some (partialResult options odagLink sv tv navError), c5)"
proof -
  have "log_values [getp sv ''name'', getp options ''selectionAppId'',
                    getp tv ''name'', getp options ''templateAppId''] = Inr ()"
    using validateAppId_valid [OF assms(6,7)] validateAppId_valid [OF assms(8,9)]
    by (simp add: log_values_def)
  then show ?thesis
    using assms(7,9,10,11)
    by (simp add: createCompleteODAGLink_def
          createCompleteODAGLink_validated [OF assms(1,2,3,4,5,6,8)]
        split: option.splits sum.splits)
qed

lemma validateAppId_reply:
  assumes "authenticated c" "printable appId"
      and "http R (issued c)
             (HttpGet (qrsBaseUrl (cfg c) @ ''/qrs/app/'' @ to_string appId @ ''?xrfkey='' @ xrfKey c)
                (axiosHeaders c)) = Reply status body"
  shows "validateAppId R appId c =
     (if 200 \<le> status \<and> status < 300 then
        (if truthy (getp body ''id'') then
           (if printable (getp body ''name'') \<and> printable (getp body ''id'') then
              Inr (JObj [(''valid'', JBool True), (''name'', getp body ''name''),
                         (''id'', getp body ''id''), (''published'', getp body ''published'')])
            else Inl (''Failed to validate app ID '' @ to_string appId
                        @ '': Cannot convert object to primitive value''))
         else Inl (''Failed to validate app ID '' @ to_string appId @ '': App not found: ''
                     @ to_string appId))
      else if status = 404 then
        Inr (JObj [(''valid'', JBool False),
                   (''error'', JStr (''App ID not found: '' @ to_string appId))])
      else Inl (''Failed to validate app ID '' @ to_string appId
                  @ '': Request failed with status code '' @ decimal status),
      c\<lparr> issued := issued c
             @ [HttpGet (qrsBaseUrl (cfg c) @ ''/qrs/app/'' @ to_string appId
                           @ ''?xrfkey='' @ xrfKey c) (axiosHeaders c)] \<rparr>)"
proof -
  have t: "truthy (js_and body (getp body ''id'')) = truthy (getp body ''id'')"
    by (cases body) (simp_all add: js_and_def)
  show ?thesis
    using assms
    by (simp add: validateAppId_def validateAppId_try_def validateAppId_catch_def
          ensureAuthenticated_def axios_get_def axios_settle_def plain_error_def Let_def t
          to_string_chk_def log_values_def)
qed

lemma validateAppId_issued:
  assumes "authenticated c" "printable appId"
  shows "issued (snd (validateAppId R appId c)) =
           issued c @ [HttpGet (qrsBaseUrl (cfg c) @ ''/qrs/app/'' @ to_string appId
                                  @ ''?xrfkey='' @ xrfKey c) (axiosHeaders c)]"
  using assms
  by (auto simp: validateAppId_def validateAppId_try_def ensureAuthenticated_def axios_get_def
        Let_def to_string_chk_def
      split: sum.splits prod.splits if_splits)

lemma addNavigationLinkToApp_outcome:
  assumes "printable a" "url_fragment (wsUrl (cfg c) a) = []"
  shows "addNavigationLinkToApp R a l n d c =
     (outcome (run_events a l
        (socket R (issued c)
           (WsConnect (wsUrl (cfg c) a)
              [(''X-Qlik-Xrfkey'', xrfKey c), (''X-Qlik-User'', userHeader (cfg c))]))
        init_session),
      c\<lparr> issued := issued c
             @ [WsConnect (wsUrl (cfg c) a)
                  [(''X-Qlik-Xrfkey'', xrfKey c), (''X-Qlik-User'', userHeader (cfg c))]] \<rparr>)"
  using assms by (simp add: addNavigationLinkToApp_def to_string_chk_def Let_def)

text \<open>
  The ways the navigation leg fails: while the promise is pending, a socket error, the
  connection timeout and a frame with an error field each reject it, and a rejection
  stands through every later event. An application id that does not print, or one that
  puts a fragment into the URL of the socket, rejects the promise before any connection.
\<close>

lemma rejected_without_connection:
  assumes "\<not> printable a \<or> url_fragment (wsUrl (cfg c) a) \<noteq> []"
  shows "\<exists>m. addNavigationLinkToApp R a l n d c = (Some (Inl m), c)"
  using assms by (auto simp: addNavigationLinkToApp_def to_string_chk_def)

lemma rejected_by_socket_error:
  assumes "outcome s = None"
  shows "outcome (run_events a l (Error m # evs) s) = Some (Inl (''WebSocket error: '' @ m))"
  using assms by (simp add: run_events_outcome on_error_def reject_def)

lemma rejected_by_timeout:
  assumes "outcome s = None" "timerArmed s"
  shows "outcome (run_events a l (Timeout # evs) s) = Some (Inl ''WebSocket connection timeout'')"
  using assms by (simp add: run_events_outcome on_timeout_def reject_def ws_close_def)

lemma rejected_by_error_frame:
  assumes "outcome s = None" "\<not> nullish r" "truthy (getp r ''error'')"
      and "printable (getp (getp r ''error'') ''message'')"
  shows "outcome (run_events a l (Message (Inr r) # evs) s)
     = Some (Inl (''WebSocket error: '' @ to_string (getp (getp r ''error'') ''message'')))"
proof -
  have "outcome (on_message l (Inr r) s)
          = Some (Inl (''WebSocket error: '' @ to_string (getp (getp r ''error'') ''message'')))"
    unfolding on_message_error [OF assms(2,3)]
    using assms(1,4) by (simp add: reject_def ws_close_def)
  from run_events_outcome [OF this, of a l evs] show ?thesis by simp
qed

lemma demo_session_rejected:
  "outcome (run_events (JStr ''A'') (JStr ''link-1'') demo_failing_events init_session)
     = Some (Inl ''WebSocket error: Invalid parameters'')"
proof -
  have "outcome (run_events (JStr ''A'') (JStr ''link-1'') [Open] init_session) = None"
    unfolding run_open by (simp add: init_session_def)
  from rejected_by_error_frame [OF this, of "demo_errorReply 1" "JStr ''A''" "JStr ''link-1''" "[]"]
  show ?thesis
    by (simp add: demo_failing_events_def demo_errorReply_def)
qed

lemma scripted_http:
  "http (scripted replies evs) h k =
     (if length h < length replies then replies ! length h else NoReply ''socket hang up'')"
  by (simp add: scripted_def)

lemma scripted_socket: "socket (scripted replies evs) h k = evs"
  by (simp add: scripted_def)

lemma demo_authenticated_fields:
  "authenticated demo_authenticated" "issued demo_authenticated = []"
  by (simp_all add: demo_authenticated_def demo_creator_eq)

lemma demo_truthy:
  "truthy (getp demo_options ''selectionAppId'')" "truthy (getp demo_options ''templateAppId'')"
  "truthy (getp demo_options ''linkName'')" "truthy (getp demo_options ''rowEstExpr'')"
  by (simp_all add: demo_options_def)

text \<open>The scenario: both lookups find their application and the link is created.\<close>

lemma demo_created:
  fixes evs
  defines "R \<equiv> scripted [Reply 200 demo_appA, Reply 200 demo_appB, Reply 201 demo_linkReply] evs"
  shows "\<exists>c2 c3 c4 c5.
      validateAppId R (getp demo_options ''selectionAppId'') demo_authenticated
        = (Inr (JObj [(''valid'', JBool True), (''name'', JStr ''Sales''), (''id'', JStr ''A''),
                      (''published'', JBool True)]), c2)
    \<and> validateAppId R (getp demo_options ''templateAppId'') c2
        = (Inr (JObj [(''valid'', JBool True), (''name'', JStr ''Sales Template''),
                      (''id'', JStr ''B''), (''published'', JBool True)]), c3)
    \<and> createODAGLink R (linkConfigOf demo_options) c3
        = (Inr (JObj [(''id'', JStr ''link-1''), (''name'', JStr ''Sales Detail'')]), c4)
    \<and> addNavigationLinkToApp R (getp demo_options ''selectionAppId'')
          (getp (JObj [(''id'', JStr ''link-1''), (''name'', JStr ''Sales Detail'')]) ''id'')
          (getp demo_options ''linkName'')
          (js_or (getp demo_options ''description'') (JStr ''On-demand app generation link'')) c4
        = (outcome (run_events (JStr ''A'') (JStr ''link-1'') evs init_session), c5)"
proof -
  let ?c1 = demo_authenticated
  define c2 where "c2 = snd (validateAppId R (JStr ''A'') ?c1)"
  have v1: "validateAppId R (JStr ''A'') ?c1
        = (Inr (JObj [(''valid'', JBool True), (''name'', JStr ''Sales''), (''id'', JStr ''A''),
                      (''published'', JBool True)]), c2)"
    and c2: "authenticated c2" "length (issued c2) = 1"
    unfolding c2_def
    by (subst validateAppId_reply [where status = 200 and body = demo_appA];
        simp add: demo_authenticated_fields R_def scripted_http demo_appA_def)+
  have g2: "cfg c2 = demo_config"
    using validateAppId_grows [OF v1]
    by (simp add: grows_def demo_authenticated_def demo_creator_eq)
  define c3 where "c3 = snd (validateAppId R (JStr ''B'') c2)"
  have v2: "validateAppId R (JStr ''B'') c2
        = (Inr (JObj [(''valid'', JBool True), (''name'', JStr ''Sales Template''),
                      (''id'', JStr ''B''), (''published'', JBool True)]), c3)"
    and c3: "authenticated c3" "length (issued c3) = 2"
    unfolding c3_def
    by (subst validateAppId_reply [where status = 200 and body = demo_appB];
        simp add: c2 R_def scripted_http demo_appB_def)+
  have g3: "cfg c3 = demo_config"
    using validateAppId_grows [OF v2] g2 by (simp add: grows_def)
  have nn: "\<not> nullish (linkConfigOf demo_options)" by (simp add: linkConfigOf_def)
  have l: "http R (issued c3)
             (HttpPost (linksUrl c3) (odagPayload (linkConfigOf demo_options)) (axiosHeaders c3))
           = Reply 201 demo_linkReply"
    by (simp add: R_def scripted_http c3)
  define c4 where "c4 = snd (createODAGLink R (linkConfigOf demo_options) c3)"
  have v3: "createODAGLink R (linkConfigOf demo_options) c3
        = (Inr (JObj [(''id'', JStr ''link-1''), (''name'', JStr ''Sales Detail'')]), c4)"
    unfolding c4_def createODAGLink_fst [OF nn ensureAuthenticated_idle [OF c3(1)] l]
    by (simp add: axios_settle_def demo_linkReply_def linkConfigOf_def demo_options_def)
  have g4: "cfg c4 = demo_config"
    using createODAGLink_grows [OF v3] g3 by (simp add: grows_def)
  have w: "wsUrl demo_config (JStr ''A'') = ''wss://qlik.example:4747/app/A''"
    by (simp add: wsUrl_def demo_config_def decimal.simps)
  have f: "url_fragment (wsUrl (cfg c4) (JStr ''A'')) = []"
    unfolding g4 w by (simp add: url_fragment_def)
  define c5 where "c5 = snd (addNavigationLinkToApp R (JStr ''A'') (JStr ''link-1'')
          (getp demo_options ''linkName'')
          (js_or (getp demo_options ''description'') (JStr ''On-demand app generation link'')) c4)"
  have v4: "addNavigationLinkToApp R (JStr ''A'') (JStr ''link-1'')
          (getp demo_options ''linkName'')
          (js_or (getp demo_options ''description'') (JStr ''On-demand app generation link'')) c4
        = (outcome (run_events (JStr ''A'') (JStr ''link-1'') evs init_session), c5)"
    unfolding c5_def
    by (simp add: addNavigationLinkToApp_outcome [OF _ f] R_def scripted_socket)
  have s: "getp demo_options ''selectionAppId'' = JStr ''A''"
    "getp demo_options ''templateAppId'' = JStr ''B''"
    by (simp_all add: demo_options_def)
  show ?thesis
    unfolding s using v1 v2 v3 v4 by auto
qed

text \<open>The scenario: the selection application is not found.\<close>

lemma demo_selection_missing:
  fixes second
  defines "R \<equiv> scripted [Reply 404 JNull, second] []"
  shows "\<exists>c2. validateAppId R (getp demo_options ''selectionAppId'') demo_authenticated
        = (Inr (JObj [(''valid'', JBool False), (''error'', JStr ''App ID not found: A'')]), c2)
      \<and> authenticated c2 \<and> issued c2 \<noteq> [] \<and> list_all (\<lambda>k. \<not> is_post k) (issued c2)
      \<and> http R (issued c2)
           (HttpGet (qrsBaseUrl (cfg c2) @ ''/qrs/app/''
                       @ to_string (getp demo_options ''templateAppId'') @ ''?xrfkey='' @ xrfKey c2)
              (axiosHeaders c2)) = second"
proof -
  have "validateAppId R (JStr ''A'') demo_authenticated
        = (Inr (JObj [(''valid'', JBool False), (''error'', JStr ''App ID not found: A'')]),
           snd (validateAppId R (JStr ''A'') demo_authenticated))"
    and "authenticated (snd (validateAppId R (JStr ''A'') demo_authenticated))"
    and "length (issued (snd (validateAppId R (JStr ''A'') demo_authenticated))) = 1"
    and "list_all (\<lambda>k. \<not> is_post k) (issued (snd (validateAppId R (JStr ''A'') demo_authenticated)))"
    by (subst validateAppId_reply [where status = 404 and body = JNull];
        simp add: demo_authenticated_fields R_def scripted_http)+
  then show ?thesis
    by (intro exI [of _ "snd (validateAppId R (JStr ''A'') demo_authenticated)"])
       (auto simp: demo_options_def R_def scripted_http)
qed

text \<open>
  C3. When authentication goes through, the request has its four required fields, both
  application ids validate, the creation call returns a link resource and the navigation
  promise resolves, \<open>createCompleteODAGLink\<close> returns a success object (\<open>success\<close>
  true, no \<open>partial\<close>, no \<open>error\<close>) whose \<open>odagLinkId\<close> is the id of the resource the
  creation call returned and whose application names are the names the two validations
  returned.
\<close>

theorem provision_success:
  assumes "ensureAuthenticated R c = (Inr (), c1)"
      and "truthy (getp options ''selectionAppId'')" "truthy (getp options ''templateAppId'')"
          "truthy (getp options ''linkName'')" "truthy (getp options ''rowEstExpr'')"
      and "validateAppId R (getp options ''selectionAppId'') c1 = (Inr sv, c2)"
          "truthy (getp sv ''valid'')"
      and "validateAppId R (getp options ''templateAppId'') c2 = (Inr tv, c3)"
          "truthy (getp tv ''valid'')"
      and "createODAGLink R (linkConfigOf options) c3 = (Inr odagLink, c4)"
      and "addNavigationLinkToApp R (getp options ''selectionAppId'') (getp odagLink ''id'')
             (getp options ''linkName'')
             (js_or (getp options ''description'') (JStr ''On-demand app generation link'')) c4
           = (Some (Inr r), c5)"
  shows "\<exists>res. createCompleteODAGLink R options c = (Some res, c5)
           \<and> getp res ''success'' = JBool True
           \<and> getp res ''partial'' = JUndefined
           \<and> getp res ''error'' = JUndefined
           \<and> getp res ''odagLinkId'' = getp odagLink ''id''
           \<and> getp res ''selectionAppName'' = getp sv ''name''
           \<and> getp res ''templateAppName'' = getp tv ''name''"
  by (simp add: createCompleteODAGLink_created [OF assms] successResult_def)

theorem provision_success_witness:
  "\<exists>res. fst (createCompleteODAGLink
              (scripted [Reply 200 demo_appA, Reply 200 demo_appB, Reply 201 demo_linkReply]
                 demo_ok_events)
              demo_options demo_authenticated) = Some res
         \<and> getp res ''success'' = JBool True
         \<and> getp res ''odagLinkId'' = JStr ''link-1''
         \<and> getp res ''selectionAppName'' = JStr ''Sales''
         \<and> getp res ''templateAppName'' = JStr ''Sales Template''"
proof -
  let ?R = "scripted [Reply 200 demo_appA, Reply 200 demo_appB, Reply 201 demo_linkReply]
              demo_ok_events"
  from demo_created [of demo_ok_events] obtain c2 c3 c4 c5 where
    v1: "validateAppId ?R (getp demo_options ''selectionAppId'') demo_authenticated
        = (Inr (JObj [(''valid'', JBool True), (''name'', JStr ''Sales''), (''id'', JStr ''A''),
                      (''published'', JBool True)]), c2)"
    and v2: "validateAppId ?R (getp demo_options ''templateAppId'') c2
        = (Inr (JObj [(''valid'', JBool True), (''name'', JStr ''Sales Template''),
                      (''id'', JStr ''B''), (''published'', JBool True)]), c3)"
    and v3: "createODAGLink ?R (linkConfigOf demo_options) c3
        = (Inr (JObj [(''id'', JStr ''link-1''), (''name'', JStr ''Sales Detail'')]), c4)"
    and v4: "addNavigationLinkToApp ?R (getp demo_options ''selectionAppId'')
          (getp (JObj [(''id'', JStr ''link-1''), (''name'', JStr ''Sales Detail'')]) ''id'')
          (getp demo_options ''linkName'')
          (js_or (getp demo_options ''description'') (JStr ''On-demand app generation link'')) c4
        = (outcome (run_events (JStr ''A'') (JStr ''link-1'') demo_ok_events init_session), c5)"
    by blast
  have o: "outcome (run_events (JStr ''A'') (JStr ''link-1'') demo_ok_events init_session)
             = Some (Inr ''ODAG app link created and app saved'')"
    unfolding demo_ok_events_def by (rule demo_session_saved(1))
  have t: "truthy (getp demo_options ''selectionAppId'')"
    "truthy (getp demo_options ''templateAppId'')"
    "truthy (getp demo_options ''linkName'')" "truthy (getp demo_options ''rowEstExpr'')"
    by (simp_all add: demo_options_def)
  from provision_success [OF ensureAuthenticated_idle [OF demo_authenticated_fields(1)] t
         v1 _ v2 _ v3 v4 [unfolded o]]
  show ?thesis by auto
qed

text \<open>
  C1 (as amended). When the link has been created and the navigation promise is rejected,
  by a socket error, the connection timeout, an error frame or anything else,
  \<open>createCompleteODAGLink\<close> returns a partial-success object (\<open>success\<close> true,
  \<open>partial\<close> true, no \<open>error\<close>) that carries the id of the created link, the same
  expression the success object carries, both application names, the message of the
  navigation error, and the fixed message that the navigation link must be added manually.
  The object has these nine properties and no other: it has no \<open>manualSteps\<close> property,
  no list of remediation steps.
\<close>

theorem provision_partial_success:
  assumes "ensureAuthenticated R c = (Inr (), c1)"
      and "truthy (getp options ''selectionAppId'')" "truthy (getp options ''templateAppId'')"
          "truthy (getp options ''linkName'')" "truthy (getp options ''rowEstExpr'')"
      and "validateAppId R (getp options ''selectionAppId'') c1 = (Inr sv, c2)"
          "truthy (getp sv ''valid'')"
      and "validateAppId R (getp options ''templateAppId'') c2 = (Inr tv, c3)"
          "truthy (getp tv ''valid'')"
      and "createODAGLink R (linkConfigOf options) c3 = (Inr odagLink, c4)"
      and "addNavigationLinkToApp R (getp options ''selectionAppId'') (getp odagLink ''id'')
             (getp options ''linkName'')
             (js_or (getp options ''description'') (JStr ''On-demand app generation link'')) c4
           = (Some (Inl navError), c5)"
  shows "\<exists>res. createCompleteODAGLink R options c = (Some res, c5)
           \<and> getp res ''success'' = JBool True
           \<and> getp res ''partial'' = JBool True
           \<and> getp res ''error'' = JUndefined
           \<and> getp res ''odagLinkId'' = getp odagLink ''id''
           \<and> getp res ''selectionAppName'' = getp sv ''name''
           \<and> getp res ''templateAppName'' = getp tv ''name''
           \<and> getp res ''navigationLinkError'' = JStr navError
           \<and> getp res ''message'' =
               JStr ''ODAG link created successfully. Navigation link must be added manually.''
           \<and> getp res ''manualSteps'' = JUndefined
           \<and> keys_of res =
               [''success'', ''partial'', ''odagLinkId'', ''selectionAppId'', ''templateAppId'',
                ''selectionAppName'', ''templateAppName'', ''message'', ''navigationLinkError'']"
  by (simp add: createCompleteODAGLink_created [OF assms] partialResult_def)

theorem provision_partial_success_witness:
  "\<exists>res. fst (createCompleteODAGLink
              (scripted [Reply 200 demo_appA, Reply 200 demo_appB, Reply 201 demo_linkReply]
                 demo_failing_events)
              demo_options demo_authenticated) = Some res
         \<and> getp res ''success'' = JBool True
         \<and> getp res ''partial'' = JBool True
         \<and> getp res ''odagLinkId'' = JStr ''link-1''
         \<and> getp res ''selectionAppName'' = JStr ''Sales''
         \<and> getp res ''templateAppName'' = JStr ''Sales Template''
         \<and> getp res ''navigationLinkError'' = JStr ''WebSocket error: Invalid parameters''
         \<and> getp res ''manualSteps'' = JUndefined"
proof -
  let ?R = "scripted [Reply 200 demo_appA, Reply 200 demo_appB, Reply 201 demo_linkReply]
              demo_failing_events"
  from demo_created [of demo_failing_events] obtain c2 c3 c4 c5 where
    v1: "validateAppId ?R (getp demo_options ''selectionAppId'') demo_authenticated
        = (Inr (JObj [(''valid'', JBool True), (''name'', JStr ''Sales''), (''id'', JStr ''A''),
                      (''published'', JBool True)]), c2)"
    and v2: "validateAppId ?R (getp demo_options ''templateAppId'') c2
        = (Inr (JObj [(''valid'', JBool True), (''name'', JStr ''Sales Template''),
                      (''id'', JStr ''B''), (''published'', JBool True)]), c3)"
    and v3: "createODAGLink ?R (linkConfigOf demo_options) c3
        = (Inr (JObj [(''id'', JStr ''link-1''), (''name'', JStr ''Sales Detail'')]), c4)"
    and v4: "addNavigationLinkToApp ?R (getp demo_options ''selectionAppId'')
          (getp (JObj [(''id'', JStr ''link-1''), (''name'', JStr ''Sales Detail'')]) ''id'')
          (getp demo_options ''linkName'')
          (js_or (getp demo_options ''description'') (JStr ''On-demand app generation link'')) c4
        = (outcome (run_events (JStr ''A'') (JStr ''link-1'') demo_failing_events init_session), c5)"
    by blast
  have o: "outcome (run_events (JStr ''A'') (JStr ''link-1'') demo_failing_events init_session)
             = Some (Inl ''WebSocket error: Invalid parameters'')"
    by (rule demo_session_rejected)
  have t: "truthy (getp demo_options ''selectionAppId'')"
    "truthy (getp demo_options ''templateAppId'')"
    "truthy (getp demo_options ''linkName'')" "truthy (getp demo_options ''rowEstExpr'')"
    by (simp_all add: demo_options_def)
  from provision_partial_success [OF ensureAuthenticated_idle [OF demo_authenticated_fields(1)] t
         v1 _ v2 _ v3 v4 [unfolded o]]
  show ?thesis by auto
qed

text \<open>
  The specification also promises a non-empty list of manual remediation steps. In the
  scenario the partial result has no \<open>manualSteps\<close> property, and no property of it is a
  list.
\<close>

theorem provision_partial_success_counterexample:
  "fst (createCompleteODAGLink
          (scripted [Reply 200 demo_appA, Reply 200 demo_appB, Reply 201 demo_linkReply]
             demo_failing_events)
          demo_options demo_authenticated) = Some demo_partial_result
   \<and> getp demo_partial_result ''partial'' = JBool True
   \<and> getp demo_partial_result ''manualSteps'' = JUndefined
   \<and> \<not> carries_step_list demo_partial_result"
proof -
  let ?R = "scripted [Reply 200 demo_appA, Reply 200 demo_appB, Reply 201 demo_linkReply]
              demo_failing_events"
  from demo_created [of demo_failing_events] obtain c2 c3 c4 c5 where
    v1: "validateAppId ?R (getp demo_options ''selectionAppId'') demo_authenticated
        = (Inr (JObj [(''valid'', JBool True), (''name'', JStr ''Sales''), (''id'', JStr ''A''),
                      (''published'', JBool True)]), c2)"
    and v2: "validateAppId ?R (getp demo_options ''templateAppId'') c2
        = (Inr (JObj [(''valid'', JBool True), (''name'', JStr ''Sales Template''),
                      (''id'', JStr ''B''), (''published'', JBool True)]), c3)"
    and v3: "createODAGLink ?R (linkConfigOf demo_options) c3
        = (Inr (JObj [(''id'', JStr ''link-1''), (''name'', JStr ''Sales Detail'')]), c4)"
    and v4: "addNavigationLinkToApp ?R (getp demo_options ''selectionAppId'')
          (getp (JObj [(''id'', JStr ''link-1''), (''name'', JStr ''Sales Detail'')]) ''id'')
          (getp demo_options ''linkName'')
          (js_or (getp demo_options ''description'') (JStr ''On-demand app generation link'')) c4
        = (outcome (run_events (JStr ''A'') (JStr ''link-1'') demo_failing_events init_session), c5)"
    by blast
  have o: "outcome (run_events (JStr ''A'') (JStr ''link-1'') demo_failing_events init_session)
             = Some (Inl ''WebSocket error: Invalid parameters'')"
    by (rule demo_session_rejected)
  have t: "truthy (getp demo_options ''selectionAppId'')"
    "truthy (getp demo_options ''templateAppId'')"
    "truthy (getp demo_options ''linkName'')" "truthy (getp demo_options ''rowEstExpr'')"
    by (simp_all add: demo_options_def)
  have "fst (createCompleteODAGLink ?R demo_options demo_authenticated) = Some demo_partial_result"
    by (simp add: createCompleteODAGLink_created
          [OF ensureAuthenticated_idle [OF demo_authenticated_fields(1)] t
              v1 _ v2 _ v3 v4 [unfolded o]])
       (simp add: partialResult_def demo_partial_result_def demo_options_def)
  then show ?thesis
    by (simp add: demo_partial_result_def carries_step_list_def)
qed

lemma grows_no_post:
  assumes "grows (own_get c) c c'"
  shows "list_all (\<lambda>k. \<not> is_post k) (drop (length (issued c)) (issued c'))"
  using assms by (auto simp: grows_def list_all_iff dest: own_get_not_post)

text \<open>
  C2 (as amended). When the request passes the field checks and the lookup reports the
  selection application invalid, or returns for it and reports the template application
  invalid, \<open>createCompleteODAGLink\<close> issues no POST at all and returns a failure. If both
  lookups return, the failure names the first invalid application id, the selection id
  before the template id; if the template lookup throws, the failure is that lookup's
  error, which names the template id when the id prints, and is the TypeError of the
  conversion when it does not.
\<close>

theorem provision_invalid_application:
  assumes "ensureAuthenticated R c = (Inr (), c1)"
      and "truthy (getp options ''selectionAppId'')" "truthy (getp options ''templateAppId'')"
          "truthy (getp options ''linkName'')" "truthy (getp options ''rowEstExpr'')"
      and "validateAppId R (getp options ''selectionAppId'') c1 = (Inr sv, c2)"
      and "validateAppId R (getp options ''templateAppId'') c2 = (rt, c3)"
      and "\<not> truthy (getp sv ''valid'') \<or> (\<exists>tv. rt = Inr tv \<and> \<not> truthy (getp tv ''valid''))"
  shows "createCompleteODAGLink R options c =
           (Some (failureResult
              (case rt of
                 Inl m \<Rightarrow> m
               | Inr tv \<Rightarrow>
                   if \<not> truthy (getp sv ''valid'')
                   then ''Selection app validation failed: App ID not found: ''
                          @ to_string (getp options ''selectionAppId'')
                   else ''Template app validation failed: App ID not found: ''
                          @ to_string (getp options ''templateAppId''))), c3)
       \<and> (\<forall>m. rt = Inl m \<longrightarrow>
             (if printable (getp options ''templateAppId'')
              then prefix (''Failed to validate app ID ''
                             @ to_string (getp options ''templateAppId'') @ '': '') m
              else m = ''Cannot convert object to primitive value''))
       \<and> list_all (\<lambda>k. \<not> is_post k) (drop (length (issued c)) (issued c3))"
proof -
  have g1: "grows (own_get c) c c1" by (rule ensureAuthenticated_grows [OF assms(1)])
  have "grows (own_get c1) c1 c2" by (rule validateAppId_grows [OF assms(6)])
  then have g2: "grows (own_get c) c c2"
    using g1 grows_own_get [OF g1] grows_trans by fastforce
  have "grows (own_get c2) c2 c3" by (rule validateAppId_grows [OF assms(7)])
  then have g3: "grows (own_get c) c c3"
    using g2 grows_own_get [OF g2] grows_trans by fastforce
  note v = createCompleteODAGLink_validated [OF assms(1-7)]
  show ?thesis
  proof (cases rt)
    case (Inl m)
    then show ?thesis
      using v validateAppId_throws [OF assms(7) [unfolded Inl]] grows_no_post [OF g3]
      by (simp add: createCompleteODAGLink_def)
  next
    case (Inr tv)
    show ?thesis
    proof (cases "truthy (getp sv ''valid'')")
      case True
      with assms(8) Inr have "\<not> truthy (getp tv ''valid'')" by simp
      from validateAppId_invalid [OF assms(7) [unfolded Inr] this] True Inr
      show ?thesis using v grows_no_post [OF g3]
        by (simp add: createCompleteODAGLink_def thrown_template_def to_string_chk_def)
    next
      case False
      from validateAppId_invalid [OF assms(6) this] False Inr
      show ?thesis using v grows_no_post [OF g3]
        by (simp add: createCompleteODAGLink_def thrown_template_def to_string_chk_def)
    qed
  qed
qed

theorem provision_invalid_application_witness:
  "fst (createCompleteODAGLink (scripted [Reply 404 JNull, Reply 200 demo_appB] [])
          demo_options demo_authenticated)
     = Some (failureResult ''Selection app validation failed: App ID not found: A'')
   \<and> list_all (\<lambda>k. \<not> is_post k)
        (issued (snd (createCompleteODAGLink (scripted [Reply 404 JNull, Reply 200 demo_appB] [])
                        demo_options demo_authenticated)))"
proof -
  let ?R = "scripted [Reply 404 JNull, Reply 200 demo_appB] []"
  from demo_selection_missing [of "Reply 200 demo_appB"] obtain c2 where
    v1: "validateAppId ?R (getp demo_options ''selectionAppId'') demo_authenticated
        = (Inr (JObj [(''valid'', JBool False), (''error'', JStr ''App ID not found: A'')]), c2)"
    and a2: "authenticated c2"
    and h2: "http ?R (issued c2)
           (HttpGet (qrsBaseUrl (cfg c2) @ ''/qrs/app/''
                       @ to_string (getp demo_options ''templateAppId'') @ ''?xrfkey='' @ xrfKey c2)
              (axiosHeaders c2)) = Reply 200 demo_appB"
    by blast
  obtain rt c3 where v2: "validateAppId ?R (getp demo_options ''templateAppId'') c2 = (rt, c3)"
    by force
  have p: "printable (getp demo_options ''templateAppId'')" by (simp add: demo_options_def)
  have rt: "rt = Inr (JObj [(''valid'', JBool True), (''name'', JStr ''Sales Template''),
                            (''id'', JStr ''B''), (''published'', JBool True)])"
    using v2 unfolding validateAppId_reply [OF a2 p h2] by (simp add: demo_appB_def)
  have inv: "\<not> truthy (getp (JObj [(''valid'', JBool False), (''error'', JStr ''App ID not found: A'')]) ''valid'')
          \<or> (\<exists>tv. rt = Inr tv \<and> \<not> truthy (getp tv ''valid''))"
    by simp
  from provision_invalid_application
         [OF ensureAuthenticated_idle [OF demo_authenticated_fields(1)] demo_truthy v1 v2 inv]
  show ?thesis
    by (simp add: rt demo_authenticated_fields demo_options_def)
qed

text \<open>
  The specification promises that the failure names the invalid application. Here the
  selection application \<open>A\<close> is reported invalid and the template lookup is answered
  with status 500: the failure is the error of the template lookup and does not mention
  \<open>A\<close>.
\<close>

theorem provision_invalid_application_counterexample:
  "fst (validateAppId (scripted [Reply 404 JNull, Reply 500 JNull] [])
          (getp demo_options ''selectionAppId'') demo_authenticated)
     = Inr (JObj [(''valid'', JBool False), (''error'', JStr ''App ID not found: A'')])
   \<and> fst (createCompleteODAGLink (scripted [Reply 404 JNull, Reply 500 JNull] [])
          demo_options demo_authenticated)
     = Some (failureResult ''Failed to validate app ID B: Request failed with status code 500'')
   \<and> \<not> sublist (to_string (getp demo_options ''selectionAppId''))
          ''Failed to validate app ID B: Request failed with status code 500''"
proof -
  let ?R = "scripted [Reply 404 JNull, Reply 500 JNull] []"
  from demo_selection_missing [of "Reply 500 JNull"] obtain c2 where
    v1: "validateAppId ?R (getp demo_options ''selectionAppId'') demo_authenticated
        = (Inr (JObj [(''valid'', JBool False), (''error'', JStr ''App ID not found: A'')]), c2)"
    and a2: "authenticated c2"
    and h2: "http ?R (issued c2)
           (HttpGet (qrsBaseUrl (cfg c2) @ ''/qrs/app/''
                       @ to_string (getp demo_options ''templateAppId'') @ ''?xrfkey='' @ xrfKey c2)
              (axiosHeaders c2)) = Reply 500 JNull"
    by blast
  obtain rt c3 where v2: "validateAppId ?R (getp demo_options ''templateAppId'') c2 = (rt, c3)"
    by force
  have d: "decimal 500 = ''500''" by (simp add: decimal.simps)
  have p: "printable (getp demo_options ''templateAppId'')" by (simp add: demo_options_def)
  have rt: "rt = Inl ''Failed to validate app ID B: Request failed with status code 500''"
    using v2 unfolding validateAppId_reply [OF a2 p h2] by (simp add: demo_options_def d)
  have "fst (createCompleteODAGLink ?R demo_options demo_authenticated)
     = Some (failureResult ''Failed to validate app ID B: Request failed with status code 500'')"
    by (simp add: createCompleteODAGLink_def
          createCompleteODAGLink_validated
            [OF ensureAuthenticated_idle [OF demo_authenticated_fields(1)] demo_truthy v1 v2] rt)
  moreover have "\<not> sublist (to_string (getp demo_options ''selectionAppId''))
          ''Failed to validate app ID B: Request failed with status code 500''"
    by (simp add: demo_options_def sublist_Cons_right)
  ultimately show ?thesis using v1 by simp
qed

text \<open>
  A template id that does not print: the request passes the field checks, as an object is
  truthy; the selection application \<open>A\<close> is reported invalid; the template lookup throws
  the TypeError of the conversion, from its \<open>catch\<close> block, and that is the failure.
\<close>

lemma provision_unprintable_template:
  "truthy (getp demo_unprintable ''templateAppId'')
   \<and> fst (createCompleteODAGLink (scripted [Reply 404 JNull] []) demo_unprintable
            demo_authenticated)
       = Some (failureResult ''Cannot convert object to primitive value'')"
proof -
  let ?R = "scripted [Reply 404 JNull] []"
  have t: "truthy (getp demo_unprintable ''selectionAppId'')"
    "truthy (getp demo_unprintable ''templateAppId'')"
    "truthy (getp demo_unprintable ''linkName'')" "truthy (getp demo_unprintable ''rowEstExpr'')"
    by (simp_all add: demo_unprintable_def)
  define c2 where "c2 = snd (validateAppId ?R (JStr ''A'') demo_authenticated)"
  have v1: "validateAppId ?R (getp demo_unprintable ''selectionAppId'') demo_authenticated
        = (Inr (JObj [(''valid'', JBool False), (''error'', JStr ''App ID not found: A'')]), c2)"
    and a2: "authenticated c2"
    unfolding c2_def
    by (subst validateAppId_reply [where status = 404 and body = JNull];
        simp add: demo_authenticated_fields scripted_http demo_unprintable_def)+
  define c3 where "c3 = snd (validateAppId ?R (getp demo_unprintable ''templateAppId'') c2)"
  have v2: "validateAppId ?R (getp demo_unprintable ''templateAppId'') c2
        = (Inl ''Cannot convert object to primitive value'', c3)"
    unfolding c3_def using a2
    by (simp add: validateAppId_def validateAppId_try_def validateAppId_catch_def
          ensureAuthenticated_def to_string_chk_def plain_error_def demo_unprintable_def)
  show ?thesis
    using t(2)
    by (simp add: createCompleteODAGLink_def
          createCompleteODAGLink_validated
            [OF ensureAuthenticated_idle [OF demo_authenticated_fields(1)] t v1 v2])
qed

text \<open>
  C4 (as amended). For a request object with \<open>selectionAppId\<close>, \<open>templateAppId\<close>,
  \<open>linkName\<close> or \<open>rowEstExpr\<close> missing: on an authenticated instance
  \<open>createCompleteODAGLink\<close> returns the missing-field failure and issues no call; on any
  instance, authentication comes first, its failure is the result when it fails, the
  missing-field failure is the result when it goes through, and the only call issued is
  the authentication request of an instance not yet authenticated.
\<close>

theorem provision_missing_field:
  assumes "\<not> nullish options"
      and "\<not> truthy (getp options ''selectionAppId'') \<or> \<not> truthy (getp options ''templateAppId'')
           \<or> \<not> truthy (getp options ''linkName'') \<or> \<not> truthy (getp options ''rowEstExpr'')"
  shows "(authenticated c \<longrightarrow>
            createCompleteODAGLink R options c =
              (Some (failureResult
                 (if \<not> truthy (getp options ''selectionAppId'')
                      \<or> \<not> truthy (getp options ''templateAppId'')
                  then ''Missing required fields: selectionAppId and templateAppId are required''
                  else if \<not> truthy (getp options ''linkName'')
                  then ''Missing required field: linkName''
                  else ''Missing required field: rowEstExpr'')), c))
       \<and> (\<forall>c1. ensureAuthenticated R c = (Inr (), c1) \<longrightarrow>
            createCompleteODAGLink R options c =
              (Some (failureResult
                 (if \<not> truthy (getp options ''selectionAppId'')
                      \<or> \<not> truthy (getp options ''templateAppId'')
                  then ''Missing required fields: selectionAppId and templateAppId are required''
                  else if \<not> truthy (getp options ''linkName'')
                  then ''Missing required field: linkName''
                  else ''Missing required field: rowEstExpr'')), c1))
       \<and> (\<forall>m c1. ensureAuthenticated R c = (Inl m, c1) \<longrightarrow>
            createCompleteODAGLink R options c = (Some (failureResult m), c1))
       \<and> issued (snd (createCompleteODAGLink R options c)) =
           (if authenticated c then issued c
            else issued c @ [HttpGet (qrsBaseUrl (cfg c) @ ''/qrs/about?xrfkey='' @ xrfKey c)
                               (axiosHeaders c)])"
proof -
  have i: "issued (snd (ensureAuthenticated R c)) =
           (if authenticated c then issued c
            else issued c @ [HttpGet (qrsBaseUrl (cfg c) @ ''/qrs/about?xrfkey='' @ xrfKey c)
                               (axiosHeaders c)])"
    by (auto simp: ensureAuthenticated_def authenticate_def axios_get_def Let_def
        split: sum.splits prod.splits if_splits)
  obtain r1 c1 where e: "ensureAuthenticated R c = (r1, c1)" by force
  have s: "snd (createCompleteODAGLink R options c) = c1"
  proof (cases r1)
    case (Inl m)
    then show ?thesis using createCompleteODAGLink_auth_fails e by simp
  next
    case (Inr u)
    then show ?thesis using createCompleteODAGLink_missing [OF _ assms] e by simp
  qed
  show ?thesis
    using createCompleteODAGLink_missing [OF _ assms] createCompleteODAGLink_auth_fails
      ensureAuthenticated_idle [of c R] i s e
    by (auto simp del: split_paired_All)
qed

theorem provision_missing_field_witness:
  "createCompleteODAGLink (scripted [] []) demo_missing demo_authenticated
     = (Some (failureResult ''Missing required field: linkName''), demo_authenticated)"
proof -
  have h: "\<not> nullish demo_missing"
    "\<not> truthy (getp demo_missing ''selectionAppId'') \<or> \<not> truthy (getp demo_missing ''templateAppId'')
      \<or> \<not> truthy (getp demo_missing ''linkName'') \<or> \<not> truthy (getp demo_missing ''rowEstExpr'')"
    by (simp_all add: demo_missing_def)
  from provision_missing_field [OF h, of demo_authenticated "scripted [] []"]
  show ?thesis by (simp add: demo_authenticated_fields demo_missing_def)
qed

text \<open>
  The specification promises the missing-field failure with no remote call. On an
  instance that has not authenticated, a request without \<open>linkName\<close> makes the
  authentication request first; when it is answered with status 401 the failure is the
  authentication failure.
\<close>

theorem provision_missing_field_counterexample:
  "\<not> truthy (getp demo_missing ''linkName'')
   \<and> fst (createCompleteODAGLink (scripted [Reply 401 JNull] []) demo_missing demo_creator)
       = Some (failureResult ''Authentication failed: Request failed with status code 401'')
   \<and> issued (snd (createCompleteODAGLink (scripted [Reply 401 JNull] []) demo_missing demo_creator))
       = [HttpGet (qrsBaseUrl demo_config @ ''/qrs/about?xrfkey=FFFFFFFFFFFFFFFF'')
            (axiosHeaders demo_creator)]"
proof -
  have d: "decimal 401 = ''401''" by (simp add: decimal.simps)
  have "ensureAuthenticated (scripted [Reply 401 JNull] []) demo_creator
          = (Inl ''Authentication failed: Request failed with status code 401'',
             demo_creator\<lparr> issued := [HttpGet (qrsBaseUrl demo_config
                                                 @ ''/qrs/about?xrfkey=FFFFFFFFFFFFFFFF'')
                                         (axiosHeaders demo_creator)] \<rparr>)"
    by (simp add: ensureAuthenticated_def authenticate_def axios_get_def axios_settle_def
          scripted_http demo_creator_eq Let_def d)
  from createCompleteODAGLink_auth_fails [OF this, of demo_missing]
  show ?thesis by (simp add: demo_missing_def)
qed

section \<open>The anti-forgery token\<close>

lemma charAt_chars:
  assumes "0 \<le> i" "i < 62"
  shows "\<exists>ch \<in> set chars. charAt chars i = [ch]"
proof -
  have len: "length chars = 62" by (simp add: chars_def)
  have "nat i < length chars" using assms by (simp add: len)
  then have "chars ! nat i \<in> set chars" by (rule nth_mem)
  with assms show ?thesis
    by (simp add: charAt_def len)
qed

lemma xrfLoop_key:
  "(\<forall>i. 0 \<le> idx i \<and> idx i < 62) \<Longrightarrow> i \<le> 16 \<Longrightarrow>
     length (xrfLoop idx i res) = length res + (16 - i)
     \<and> set (xrfLoop idx i res) \<subseteq> set res \<union> set chars"
proof (induction idx i res rule: xrfLoop.induct)
  case (1 idx i res)
  show ?case
  proof (cases "i < 16")
    case True
    from "1.prems"(1) have "0 \<le> idx i" "idx i < 62" by simp_all
    from charAt_chars [OF this] obtain ch where
      ch: "ch \<in> set chars" "charAt chars (idx i) = [ch]"
      by blast
    from True have "i + 1 \<le> 16" by simp
    from "1.IH" [OF True "1.prems"(1) this] True ch show ?thesis
      by (subst (1 2) xrfLoop.simps) auto
  next
    case False
    with "1.prems" show ?thesis
      by (subst (1 2) xrfLoop.simps) simp
  qed
qed

text \<open>
  C8 (as amended). The token the constructor generates has 16 characters, all of them
  letters or digits (the index into the alphabet lies between 0 and 61 at every draw);
  after any sequence of operations on the instance, against any remote platform, the token
  of the instance is still that value, and every call the instance has issued carries it:
  every call in its \<open>X-Qlik-Xrfkey\<close> header, and every REST call at the end of its URL,
  which is the text built so far followed by \<open>?xrfkey=\<close> and the token. That is the
  \<open>xrfkey\<close> query parameter of the request whenever the text built so far, with the
  application id interpolated into it, has no \<open>#\<close> and no \<open>?\<close>.
\<close>

theorem xrfKey_generated_once:
  assumes "\<forall>i. 0 \<le> idx i \<and> idx i < 62"
  shows "length (xrfKey (new_ODAGLinkCreator g idx)) = 16
       \<and> set (xrfKey (new_ODAGLinkCreator g idx)) \<subseteq> set chars
       \<and> xrfKey (perform_all R ops (new_ODAGLinkCreator g idx))
           = xrfKey (new_ODAGLinkCreator g idx)
       \<and> list_all (carries_token (xrfKey (new_ODAGLinkCreator g idx)))
           (issued (perform_all R ops (new_ODAGLinkCreator g idx)))"
proof -
  let ?c = "new_ODAGLinkCreator g idx"
  have k: "xrfKey ?c = generateXrfKey idx" "issued ?c = []"
    by (simp_all add: new_ODAGLinkCreator_def Let_def)
  have th: "token_header ?c"
    by (simp add: new_ODAGLinkCreator_def Let_def token_header_def)
  from xrfLoop_key [OF assms, of 0 "[]"]
  have 1: "length (xrfKey ?c) = 16" "set (xrfKey ?c) \<subseteq> set chars"
    by (simp_all add: k generateXrfKey_def)
  from perform_all_grows [of ?c R ops] obtain ks where
    g: "xrfKey (perform_all R ops ?c) = xrfKey ?c" "issued (perform_all R ops ?c) = ks"
       "list_all (own_call ?c) ks"
    by (auto simp: grows_def k)
  from g(3) have "list_all (carries_token (xrfKey ?c)) ks"
    by (auto simp: list_all_iff intro: own_call_token [OF th 1(2)])
  with 1 g show ?thesis by simp
qed

lemma demo_urls:
  "qrsBaseUrl demo_config = ''https://qlik.example:4242''"
  by (simp add: qrsBaseUrl_def demo_config_def decimal.simps)

theorem xrfKey_generated_once_witness:
  "xrfKey demo_creator = ''FFFFFFFFFFFFFFFF''
   \<and> length (xrfKey demo_creator) = 16
   \<and> xrfKey (perform_all (scripted [] [])
        [CreateCompleteODAGLink demo_options, TestConnection, ValidateAppId (JStr ''A'')]
        demo_creator) = xrfKey demo_creator
   \<and> list_all (carries_token (xrfKey demo_creator))
       (issued (perform_all (scripted [] [])
          [CreateCompleteODAGLink demo_options, TestConnection, ValidateAppId (JStr ''A'')]
          demo_creator))
   \<and> issued (snd (validateAppId (scripted [] []) (JStr ''A'') demo_authenticated))
       = [HttpGet ''https://qlik.example:4242/qrs/app/A?xrfkey=FFFFFFFFFFFFFFFF''
            (axiosHeaders demo_authenticated)]
   \<and> query_param ''https://qlik.example:4242/qrs/app/A?xrfkey=FFFFFFFFFFFFFFFF'' ''xrfkey''
       = Some ''FFFFFFFFFFFFFFFF''"
proof -
  have h: "\<forall>i::nat. (0::int) \<le> 31 \<and> (31::int) < 62" by simp
  have u: "issued (snd (validateAppId (scripted [] []) (JStr ''A'') demo_authenticated))
       = [HttpGet ''https://qlik.example:4242/qrs/app/A?xrfkey=FFFFFFFFFFFFFFFF''
            (axiosHeaders demo_authenticated)]"
    by (subst validateAppId_issued)
       (simp_all add: demo_authenticated_fields demo_urls demo_authenticated_def demo_creator_eq)
  have q: "query_param ''https://qlik.example:4242/qrs/app/A?xrfkey=FFFFFFFFFFFFFFFF'' ''xrfkey''
       = Some ''FFFFFFFFFFFFFFFF''"
    by (simp add: query_param_def url_query_def)
  from xrfKey_generated_once [of "\<lambda>i. 31", OF h, of demo_config "scripted [] []"
         "[CreateCompleteODAGLink demo_options, TestConnection, ValidateAppId (JStr ''A'')]"]
  show ?thesis
    unfolding demo_creator_def [symmetric] using u q by (simp add: demo_creator_eq)
qed

text \<open>
  The claim has the token attached to every REST call as a query parameter of the URL. An
  application id is interpolated into the URL as it is: for the id \<open>A#x\<close> the lookup
  requests a URL whose query is empty, as \<open>?xrfkey=\<close> and the token fall into the
  fragment, which is not sent. The request has no \<open>xrfkey\<close> parameter.
\<close>

theorem xrfKey_generated_once_counterexample:
  "issued (snd (validateAppId (scripted [] []) (JStr ''A#x'') demo_authenticated))
     = [HttpGet ''https://qlik.example:4242/qrs/app/A#x?xrfkey=FFFFFFFFFFFFFFFF''
          (axiosHeaders demo_authenticated)]
   \<and> xrfKey demo_authenticated = ''FFFFFFFFFFFFFFFF''
   \<and> url_query ''https://qlik.example:4242/qrs/app/A#x?xrfkey=FFFFFFFFFFFFFFFF'' = []
   \<and> query_param ''https://qlik.example:4242/qrs/app/A#x?xrfkey=FFFFFFFFFFFFFFFF'' ''xrfkey''
       = None"
proof -
  have u: "issued (snd (validateAppId (scripted [] []) (JStr ''A#x'') demo_authenticated))
     = [HttpGet ''https://qlik.example:4242/qrs/app/A#x?xrfkey=FFFFFFFFFFFFFFFF''
          (axiosHeaders demo_authenticated)]"
    by (subst validateAppId_issued)
       (simp_all add: demo_authenticated_fields demo_urls demo_authenticated_def demo_creator_eq)
  have q: "url_query ''https://qlik.example:4242/qrs/app/A#x?xrfkey=FFFFFFFFFFFFFFFF'' = []"
    by (simp add: url_query_def)
  have "query_param ''https://qlik.example:4242/qrs/app/A#x?xrfkey=FFFFFFFFFFFFFFFF'' ''xrfkey''
       = None"
    unfolding query_param_def q by simp
  with u q show ?thesis
    by (simp add: demo_authenticated_def demo_creator_eq)
qed

end
